theory Spec2Isabelle
  imports Complex_Main
begin

section \<open>Conventions of the model\<close>

text \<open>
  The program is the Python package \<open>banking_analysis_platform\<close> together with the
  module \<open>config\<close>. Its numbers are Python floats; they are modelled as exact reals, so
  rounding, overflow, infinities and NaN are not part of the model. The one place where
  the source itself tests for an absent number (\<open>pd.isna(value) or value is None\<close> in
  \<open>normalize_score\<close>) keeps its branch: the argument is a \<open>real option\<close>, and \<open>None\<close>
  stands for Python's \<open>None\<close> and for NaN.

  Exceptions are values: a function of the source that can raise returns
  \<open>py_error + 'a\<close>, with \<open>Inl\<close> for the exception.
\<close>

datatype py_error = ZeroDivisionError | KeyError

text \<open>\<open>bind_err\<close> is sequencing in the presence of exceptions: the first one ends the run.\<close>

definition bind_err :: "py_error + 'a \<Rightarrow> ('a \<Rightarrow> py_error + 'b) \<Rightarrow> py_error + 'b" where
  "bind_err m f = (case m of Inl e \<Rightarrow> Inl e | Inr x \<Rightarrow> f x)"

text \<open>Python's \<open>a / b\<close> on floats raises when \<open>b\<close> is zero.\<close>

definition py_truediv :: "real \<Rightarrow> real \<Rightarrow> py_error + real" where
  "py_truediv a b = (if b = 0 then Inl ZeroDivisionError else Inr (a / b))"

section \<open>\<open>config.py\<close>: the threshold table\<close>

text \<open>
  \<open>RATIOS_THRESHOLDS\<close> is a dictionary from ratio name to a pair. The pair of
  \<open>problem_loans_ratio\<close> is written \<open>(0.05, 0.02)\<close> in the source, with the comment
  "Max 5%, Ideal 2% (reverse threshold)".
\<close>

definition RATIOS_THRESHOLDS_items :: "(string \<times> (real \<times> real)) list" where
  "RATIOS_THRESHOLDS_items =
    [(''capital_adequacy'', (0.08, 0.12)),
     (''instant_liquidity'', (0.15, 0.25)),
     (''current_liquidity'', (1.0, 1.5)),
     (''roe'', (0.10, 0.15)),
     (''roa'', (0.01, 0.02)),
     (''nim'', (0.02, 0.04)),
     (''problem_loans_ratio'', (0.05, 0.02))]"

text \<open>\<open>RATIOS_THRESHOLDS[name]\<close>: a missing key raises \<open>KeyError\<close>.\<close>

definition RATIOS_THRESHOLDS :: "string \<Rightarrow> py_error + (real \<times> real)" where
  "RATIOS_THRESHOLDS name =
    (case map_of RATIOS_THRESHOLDS_items name of None \<Rightarrow> Inl KeyError | Some p \<Rightarrow> Inr p)"

section \<open>\<open>analytics/calculator.py\<close>\<close>

subsection \<open>\<open>normalize_score\<close>\<close>

text \<open>
  The same function, with the same text, is also defined in \<open>analytics/bsi.py\<close>.
  The interpolation divides by \<open>max_thr - min_thr\<close>; the division is Python's and can
  raise.
\<close>

definition normalize_score :: "real option \<Rightarrow> real \<Rightarrow> real \<Rightarrow> bool \<Rightarrow> py_error + real" where
  "normalize_score val min_thr max_thr reverse =
    (case val of
       None \<Rightarrow> Inr 0
     | Some v \<Rightarrow>
        if reverse then
          (if v \<le> min_thr then Inr 1
           else if v \<ge> max_thr then Inr 0
           else py_truediv (max_thr - v) (max_thr - min_thr))
        else
          (if v \<ge> max_thr then Inr 1
           else if v \<le> min_thr then Inr 0
           else py_truediv (v - min_thr) (max_thr - min_thr)))"

subsection \<open>Interpretation strings\<close>

text \<open>
  An interpretation is an f-string. Its literal text is kept as it is in the source; a
  formatted number is kept as the number with its format: \<open>Pct2 x\<close> is \<open>{x:.2%}\<close> and
  \<open>Fix2 x\<close> is \<open>{x:.2f}\<close>.
\<close>

datatype piece = Lit string | Pct2 real | Fix2 real

type_synonym interp = "piece list"

subsection \<open>\<open>BankingRatiosCalculator\<close>\<close>

text \<open>
  The financial data is a dictionary from indicator name to number, read with
  \<open>self.data.get(key, 0)\<close>.
\<close>

type_synonym financial_data = "string \<rightharpoonup> real"

definition get_default :: "financial_data \<Rightarrow> string \<Rightarrow> real \<Rightarrow> real" where
  "get_default d k dflt = (case d k of None \<Rightarrow> dflt | Some v \<Rightarrow> v)"

record calculator =
  total_assets :: real
  total_liabilities :: real
  equity :: real
  net_income :: real
  cash_and_equivalents :: real
  loans_to_customers :: real
  net_interest_income :: real
  deposits_from_customers :: real
  total_capital :: real
  average_assets :: real
  liquid_assets :: real
  demand_deposits :: real
  short_term_liabilities :: real

definition init_calculator :: "financial_data \<Rightarrow> calculator" where
  "init_calculator d =
    \<lparr> total_assets = get_default d ''total_assets'' 0,
      total_liabilities = get_default d ''total_liabilities'' 0,
      equity = get_default d ''equity'' 0,
      net_income = get_default d ''net_income'' 0,
      cash_and_equivalents = get_default d ''cash_and_equivalents'' 0,
      loans_to_customers = get_default d ''loans_to_customers'' 0,
      net_interest_income = get_default d ''net_interest_income'' 0,
      deposits_from_customers = get_default d ''deposits_from_customers'' 0,
      total_capital = get_default d ''equity'' 0 + get_default d ''subordinated_debt'' 0,
      average_assets = get_default d ''total_assets'' 0,
      liquid_assets = get_default d ''cash_and_equivalents'' 0,
      demand_deposits = get_default d ''deposits_from_customers'' 0 * 0.7,
      short_term_liabilities = get_default d ''total_liabilities'' 0 * 0.5 \<rparr>"

type_synonym ratio_result = "real \<times> interp"

definition calculate_capital_adequacy :: "calculator \<Rightarrow> py_error + ratio_result" where
  "calculate_capital_adequacy self =
    (if total_assets self = 0 then Inr (0, [Lit ''Cannot calculate: Total assets is zero''])
     else
       bind_err (py_truediv (equity self) (total_assets self)) (\<lambda>ratio.
       bind_err (RATIOS_THRESHOLDS ''capital_adequacy'') (\<lambda>(min_thr, max_thr).
       Inr (ratio,
         if ratio \<ge> max_thr then
           [Lit ''Excellent: '', Pct2 ratio, Lit '' (above target of '', Pct2 max_thr, Lit '')'']
         else if ratio \<ge> min_thr then
           [Lit ''Adequate: '', Pct2 ratio, Lit '' (meets minimum of '', Pct2 min_thr, Lit '')'']
         else
           [Lit ''Deficient: '', Pct2 ratio, Lit '' (below minimum of '', Pct2 min_thr, Lit '')'']))))"

definition calculate_instant_liquidity :: "calculator \<Rightarrow> py_error + ratio_result" where
  "calculate_instant_liquidity self =
    (if demand_deposits self = 0 then Inr (0, [Lit ''Cannot calculate: Demand deposits is zero''])
     else
       bind_err (py_truediv (liquid_assets self) (demand_deposits self)) (\<lambda>ratio.
       bind_err (RATIOS_THRESHOLDS ''instant_liquidity'') (\<lambda>(min_thr, max_thr).
       Inr (ratio,
         if ratio \<ge> max_thr then
           [Lit ''Strong: '', Pct2 ratio, Lit '' (exceeds target of '', Pct2 max_thr, Lit '')'']
         else if ratio \<ge> min_thr then
           [Lit ''Adequate: '', Pct2 ratio, Lit '' (meets minimum of '', Pct2 min_thr, Lit '')'']
         else
           [Lit ''Concerning: '', Pct2 ratio, Lit '' (below minimum of '', Pct2 min_thr, Lit '')'']))))"

definition calculate_current_liquidity :: "calculator \<Rightarrow> py_error + ratio_result" where
  "calculate_current_liquidity self =
    (if short_term_liabilities self = 0 then
       Inr (0, [Lit ''Cannot calculate: Short-term liabilities is zero''])
     else
       bind_err (py_truediv (liquid_assets self) (short_term_liabilities self)) (\<lambda>ratio.
       bind_err (RATIOS_THRESHOLDS ''current_liquidity'') (\<lambda>(min_thr, max_thr).
       Inr (ratio,
         if ratio \<ge> max_thr then
           [Lit ''Strong: '', Fix2 ratio, Lit '' (exceeds target of '', Fix2 max_thr, Lit '')'']
         else if ratio \<ge> min_thr then
           [Lit ''Adequate: '', Fix2 ratio, Lit '' (meets minimum of '', Fix2 min_thr, Lit '')'']
         else
           [Lit ''Concerning: '', Fix2 ratio, Lit '' (below minimum of '', Fix2 min_thr, Lit '')'']))))"

definition calculate_roe :: "calculator \<Rightarrow> py_error + ratio_result" where
  "calculate_roe self =
    (if equity self = 0 then Inr (0, [Lit ''Cannot calculate: Equity is zero''])
     else
       bind_err (py_truediv (net_income self) (equity self)) (\<lambda>ratio.
       bind_err (RATIOS_THRESHOLDS ''roe'') (\<lambda>(min_thr, max_thr).
       Inr (ratio,
         if ratio \<ge> max_thr then
           [Lit ''Excellent: '', Pct2 ratio, Lit '' (exceeds target of '', Pct2 max_thr, Lit '')'']
         else if ratio \<ge> min_thr then
           [Lit ''Good: '', Pct2 ratio, Lit '' (meets minimum of '', Pct2 min_thr, Lit '')'']
         else
           [Lit ''Low: '', Pct2 ratio, Lit '' (below minimum of '', Pct2 min_thr, Lit '')'']))))"

definition calculate_roa :: "calculator \<Rightarrow> py_error + ratio_result" where
  "calculate_roa self =
    (if total_assets self = 0 then Inr (0, [Lit ''Cannot calculate: Total assets is zero''])
     else
       bind_err (py_truediv (net_income self) (total_assets self)) (\<lambda>ratio.
       bind_err (RATIOS_THRESHOLDS ''roa'') (\<lambda>(min_thr, max_thr).
       Inr (ratio,
         if ratio \<ge> max_thr then
           [Lit ''Excellent: '', Pct2 ratio, Lit '' (exceeds target of '', Pct2 max_thr, Lit '')'']
         else if ratio \<ge> min_thr then
           [Lit ''Good: '', Pct2 ratio, Lit '' (meets minimum of '', Pct2 min_thr, Lit '')'']
         else
           [Lit ''Low: '', Pct2 ratio, Lit '' (below minimum of '', Pct2 min_thr, Lit '')'']))))"

definition calculate_nim :: "calculator \<Rightarrow> py_error + ratio_result" where
  "calculate_nim self =
    (if average_assets self = 0 then Inr (0, [Lit ''Cannot calculate: Average assets is zero''])
     else
       bind_err (py_truediv (net_interest_income self) (average_assets self)) (\<lambda>ratio.
       bind_err (RATIOS_THRESHOLDS ''nim'') (\<lambda>(min_thr, max_thr).
       Inr (ratio,
         if ratio \<ge> max_thr then
           [Lit ''Excellent: '', Pct2 ratio, Lit '' (exceeds target of '', Pct2 max_thr, Lit '')'']
         else if ratio \<ge> min_thr then
           [Lit ''Good: '', Pct2 ratio, Lit '' (meets minimum of '', Pct2 min_thr, Lit '')'']
         else
           [Lit ''Low: '', Pct2 ratio, Lit '' (below minimum of '', Pct2 min_thr, Lit '')'']))))"

text \<open>
  The problem-loans ratio estimates the non-performing loans as 3% of the loans and
  divides by the loans again. It reads the pair as \<open>(min_thr, max_thr) = (0.05, 0.02)\<close>
  and compares with \<open>max_thr\<close> first. The choice of the interpretation (the
  \<open>if\<close>/\<open>elif\<close>/\<open>else\<close> at the end of the method) is \<open>interpret_problem_loans\<close>.
\<close>

definition interpret_problem_loans :: "real \<Rightarrow> real \<Rightarrow> real \<Rightarrow> interp" where
  "interpret_problem_loans ratio min_thr max_thr =
    (if ratio \<le> max_thr then
       [Lit ''Healthy: '', Pct2 ratio, Lit '' (below target of '', Pct2 max_thr, Lit '')'']
     else if ratio \<le> min_thr then
       [Lit ''Concerning: '', Pct2 ratio, Lit '' (approaching threshold of '', Pct2 min_thr,
        Lit '')'']
     else
       [Lit ''Critical: '', Pct2 ratio, Lit '' (exceeds threshold of '', Pct2 min_thr,
        Lit '')''])"

definition calculate_problem_loans_ratio :: "calculator \<Rightarrow> py_error + ratio_result" where
  "calculate_problem_loans_ratio self =
    (if loans_to_customers self = 0 then
       Inr (0, [Lit ''Cannot calculate: Loans to customers is zero''])
     else
       (let estimated_npl = loans_to_customers self * 0.03 in
        bind_err (py_truediv estimated_npl (loans_to_customers self)) (\<lambda>ratio.
        bind_err (RATIOS_THRESHOLDS ''problem_loans_ratio'') (\<lambda>(min_thr, max_thr).
        Inr (ratio, interpret_problem_loans ratio min_thr max_thr)))))"

text \<open>
  \<open>calculate_all_ratios\<close> fills a dictionary in this order; the dictionary is kept as
  the list of its items, which is what \<open>calculate_bsi\<close> iterates over.
\<close>

definition calculate_all_ratios :: "calculator \<Rightarrow> py_error + (string \<times> ratio_result) list" where
  "calculate_all_ratios self =
    bind_err (calculate_capital_adequacy self) (\<lambda>r1.
    bind_err (calculate_instant_liquidity self) (\<lambda>r2.
    bind_err (calculate_current_liquidity self) (\<lambda>r3.
    bind_err (calculate_roe self) (\<lambda>r4.
    bind_err (calculate_roa self) (\<lambda>r5.
    bind_err (calculate_nim self) (\<lambda>r6.
    bind_err (calculate_problem_loans_ratio self) (\<lambda>r7.
    Inr [(''capital_adequacy'', r1), (''instant_liquidity'', r2), (''current_liquidity'', r3),
         (''roe'', r4), (''roa'', r5), (''nim'', r6), (''problem_loans_ratio'', r7)])))))))"

subsection \<open>\<open>calculate_bsi\<close>\<close>

definition weights :: "(string \<times> real) list" where
  "weights =
    [(''capital_adequacy'', 0.20), (''instant_liquidity'', 0.15), (''current_liquidity'', 0.15),
     (''roe'', 0.15), (''roa'', 0.15), (''nim'', 0.10), (''problem_loans_ratio'', 0.10)]"

text \<open>
  One pass of the first loop: the score of one ratio. Both branches read the pair as
  \<open>(min_thr, max_thr)\<close>; only the \<open>reverse\<close> flag differs.
\<close>

definition normalized_score_of :: "string \<Rightarrow> real \<Rightarrow> py_error + real" where
  "normalized_score_of ratio_name ratio_value =
    (if ratio_name = ''problem_loans_ratio'' then
       bind_err (RATIOS_THRESHOLDS ratio_name) (\<lambda>(min_thr, max_thr).
         normalize_score (Some ratio_value) min_thr max_thr True)
     else
       bind_err (RATIOS_THRESHOLDS ratio_name) (\<lambda>(min_thr, max_thr).
         normalize_score (Some ratio_value) min_thr max_thr False))"

fun normalize_ratios ::
  "(string \<times> ratio_result) list \<Rightarrow> (string \<rightharpoonup> real) \<Rightarrow> py_error + (string \<rightharpoonup> real)" where
  "normalize_ratios [] normalized_scores = Inr normalized_scores"
| "normalize_ratios ((ratio_name, (ratio_value, _)) # rest) normalized_scores =
    bind_err (normalized_score_of ratio_name ratio_value) (\<lambda>s.
      normalize_ratios rest (normalized_scores(ratio_name \<mapsto> s)))"

text \<open>The second loop: \<open>bsi += normalized_scores[ratio_name] * weight\<close>.\<close>

fun weighted_sum :: "(string \<times> real) list \<Rightarrow> (string \<rightharpoonup> real) \<Rightarrow> real \<Rightarrow> py_error + real" where
  "weighted_sum [] normalized_scores bsi = Inr bsi"
| "weighted_sum ((ratio_name, weight) # rest) normalized_scores bsi =
    (case normalized_scores ratio_name of
       None \<Rightarrow> Inl KeyError
     | Some s \<Rightarrow> weighted_sum rest normalized_scores (bsi + s * weight))"

definition interpret_bsi :: "real \<Rightarrow> interp" where
  "interpret_bsi bsi =
    (if bsi \<ge> 0.8 then [Lit ''Excellent stability: '', Fix2 bsi, Lit ''/1.00'']
     else if bsi \<ge> 0.6 then [Lit ''Good stability: '', Fix2 bsi, Lit ''/1.00'']
     else if bsi \<ge> 0.4 then [Lit ''Adequate stability: '', Fix2 bsi, Lit ''/1.00'']
     else if bsi \<ge> 0.2 then [Lit ''Concerning stability: '', Fix2 bsi, Lit ''/1.00'']
     else [Lit ''Critical stability: '', Fix2 bsi, Lit ''/1.00''])"

text \<open>
  The tier of an interpretation is the text before the first colon of its leading
  literal (\<open>Healthy\<close>, \<open>Excellent stability\<close>, ...).
\<close>

definition tier_label :: "interp \<Rightarrow> string" where
  "tier_label i = (case i of Lit s # _ \<Rightarrow> takeWhile (\<lambda>c. c \<noteq> CHR '':'') s | _ \<Rightarrow> [])"

definition calculate_bsi :: "calculator \<Rightarrow> py_error + (real \<times> interp)" where
  "calculate_bsi self =
    bind_err (calculate_all_ratios self) (\<lambda>all_ratios.
    bind_err (normalize_ratios all_ratios Map.empty) (\<lambda>normalized_scores.
    bind_err (weighted_sum weights normalized_scores 0) (\<lambda>bsi.
    Inr (bsi, interpret_bsi bsi))))"

section \<open>Text\<close>

text \<open>
  A Python string is a list of Unicode code points (the integers \<open>ord\<close> gives).
  \<open>asc\<close> reads an ASCII literal; text with Cyrillic letters is written as its code
  points, with a transliteration beside it.

  What Python decides by the Unicode tables is modelled on the part of Unicode the
  program is written for: upper and lower case on ASCII and on the Cyrillic letters
  U+0400 to U+045F (every other code point is its own upper and lower case), and the
  digits are the ASCII digits. White space is the full set of \<open>str.isspace\<close>.
\<close>

type_synonym codepoint = int

type_synonym ustring = "codepoint list"

definition asc :: "string \<Rightarrow> ustring" where
  "asc s = map of_char s"

definition is_space :: "codepoint \<Rightarrow> bool" where
  "is_space c =
    ((9 \<le> c \<and> c \<le> 13) \<or> (28 \<le> c \<and> c \<le> 32) \<or> c = 133 \<or> c = 160 \<or> c = 5760 \<or>
     (8192 \<le> c \<and> c \<le> 8202) \<or> c = 8232 \<or> c = 8233 \<or> c = 8239 \<or> c = 8287 \<or> c = 12288)"

definition is_digit :: "codepoint \<Rightarrow> bool" where
  "is_digit c = (48 \<le> c \<and> c \<le> 57)"

definition lower_cp :: "codepoint \<Rightarrow> codepoint" where
  "lower_cp c =
    (if 65 \<le> c \<and> c \<le> 90 then c + 32
     else if 1040 \<le> c \<and> c \<le> 1071 then c + 32
     else if 1024 \<le> c \<and> c \<le> 1039 then c + 80
     else c)"

definition upper_cp :: "codepoint \<Rightarrow> codepoint" where
  "upper_cp c =
    (if 97 \<le> c \<and> c \<le> 122 then c - 32
     else if 1072 \<le> c \<and> c \<le> 1103 then c - 32
     else if 1104 \<le> c \<and> c \<le> 1119 then c - 80
     else c)"

text \<open>\<open>s.lower()\<close>, \<open>s.upper()\<close>, \<open>s.strip()\<close>, \<open>s.replace(a, b)\<close> for single characters
  (\<open>b\<close> a character or nothing), \<open>sub in s\<close>, \<open>s.isdigit()\<close>.\<close>

definition lower :: "ustring \<Rightarrow> ustring" where
  "lower s = map lower_cp s"

definition upper :: "ustring \<Rightarrow> ustring" where
  "upper s = map upper_cp s"

definition strip :: "ustring \<Rightarrow> ustring" where
  "strip s = rev (dropWhile is_space (rev (dropWhile is_space s)))"

definition replace_char :: "codepoint \<Rightarrow> codepoint \<Rightarrow> ustring \<Rightarrow> ustring" where
  "replace_char a b s = map (\<lambda>c. if c = a then b else c) s"

definition remove_char :: "codepoint \<Rightarrow> ustring \<Rightarrow> ustring" where
  "remove_char a s = filter (\<lambda>c. c \<noteq> a) s"

fun starts_with :: "ustring \<Rightarrow> ustring \<Rightarrow> bool" where
  "starts_with [] s = True"
| "starts_with (p # ps) [] = False"
| "starts_with (p # ps) (c # cs) = (p = c \<and> starts_with ps cs)"

fun contains :: "ustring \<Rightarrow> ustring \<Rightarrow> bool" where
  "contains sub [] = (sub = [])"
| "contains sub (c # cs) = (starts_with sub (c # cs) \<or> contains sub cs)"

definition isdigit :: "ustring \<Rightarrow> bool" where
  "isdigit s = (s \<noteq> [] \<and> list_all is_digit s)"

text \<open>\<open>s.rsplit(',', 1)\<close> for a string that holds a comma: the text before the last
  comma and the text after it.\<close>

definition rsplit_comma :: "ustring \<Rightarrow> ustring \<times> ustring" where
  "rsplit_comma s =
    (rev (tl (dropWhile (\<lambda>c. c \<noteq> 44) (rev s))), rev (takeWhile (\<lambda>c. c \<noteq> 44) (rev s)))"

section \<open>Regular expressions\<close>

text \<open>
  The patterns of the program are sequences of single-character atoms, each taken once,
  optionally (\<open>?\<close>), any number of times (\<open>*\<close>) or at least once (\<open>+\<close>), and the
  anchors \<open>^\<close> and \<open>$\<close>. The matcher is the backtracking matcher of \<open>re\<close>: the
  quantifiers are greedy, and the first way to match that is found is the match.
\<close>

datatype cls_item = CChar codepoint | CDigit | CSpace

datatype atom = Chr codepoint | Dot | Cls bool "cls_item list"

datatype quant = One | Opt | Star | Plus

datatype item = Atom atom quant | Bol | Eol

type_synonym regex = "item list"

definition lit :: "ustring \<Rightarrow> regex" where
  "lit s = map (\<lambda>c. Atom (Chr c) One) s"

fun cls_item_ok :: "cls_item \<Rightarrow> codepoint \<Rightarrow> bool" where
  "cls_item_ok (CChar x) c = (x = c)"
| "cls_item_ok CDigit c = is_digit c"
| "cls_item_ok CSpace c = is_space c"

text \<open>
  \<open>atom_ok ic a c\<close>: the atom \<open>a\<close> accepts the character \<open>c\<close>; \<open>ic\<close> is
  \<open>re.IGNORECASE\<close>. The dot accepts everything but a newline. \<open>Cls neg items\<close> is a
  bracket class, negated when \<open>neg\<close> holds; the program uses its classes without
  \<open>re.IGNORECASE\<close>.
\<close>

fun atom_ok :: "bool \<Rightarrow> atom \<Rightarrow> codepoint \<Rightarrow> bool" where
  "atom_ok ic (Chr x) c = (if ic then lower_cp x = lower_cp c else x = c)"
| "atom_ok ic Dot c = (c \<noteq> 10)"
| "atom_ok ic (Cls neg items) c = (list_ex (\<lambda>i. cls_item_ok i c) items \<noteq> neg)"

text \<open>
  \<open>re_match_at ic p pos s\<close> matches \<open>p\<close> at position \<open>pos\<close> of the subject, whose
  text from \<open>pos\<close> on is \<open>s\<close>; the result is the text after the match. \<open>$\<close> holds at
  the end and before a newline that ends the subject.
\<close>

fun re_match_at :: "bool \<Rightarrow> regex \<Rightarrow> nat \<Rightarrow> ustring \<Rightarrow> ustring option" where
  "re_match_at ic [] pos s = Some s"
| "re_match_at ic (Bol # p) pos s = (if pos = 0 then re_match_at ic p pos s else None)"
| "re_match_at ic (Eol # p) pos s = (if s = [] \<or> s = [10] then re_match_at ic p pos s else None)"
| "re_match_at ic (Atom a One # p) pos [] = None"
| "re_match_at ic (Atom a One # p) pos (c # cs) =
    (if atom_ok ic a c then re_match_at ic p (Suc pos) cs else None)"
| "re_match_at ic (Atom a Opt # p) pos [] = re_match_at ic p pos []"
| "re_match_at ic (Atom a Opt # p) pos (c # cs) =
    (if atom_ok ic a c then
       (case re_match_at ic p (Suc pos) cs of
          Some r \<Rightarrow> Some r
        | None \<Rightarrow> re_match_at ic p pos (c # cs))
     else re_match_at ic p pos (c # cs))"
| "re_match_at ic (Atom a Star # p) pos [] = re_match_at ic p pos []"
| "re_match_at ic (Atom a Star # p) pos (c # cs) =
    (if atom_ok ic a c then
       (case re_match_at ic (Atom a Star # p) (Suc pos) cs of
          Some r \<Rightarrow> Some r
        | None \<Rightarrow> re_match_at ic p pos (c # cs))
     else re_match_at ic p pos (c # cs))"
| "re_match_at ic (Atom a Plus # p) pos [] = None"
| "re_match_at ic (Atom a Plus # p) pos (c # cs) =
    (if atom_ok ic a c then re_match_at ic (Atom a Star # p) (Suc pos) cs else None)"

text \<open>\<open>re.match(p, s)\<close> and \<open>re.search(p, s)\<close>, as the truth value the program uses.\<close>

definition re_match :: "bool \<Rightarrow> regex \<Rightarrow> ustring \<Rightarrow> bool" where
  "re_match ic p s = (re_match_at ic p 0 s \<noteq> None)"

fun re_search_from :: "bool \<Rightarrow> regex \<Rightarrow> nat \<Rightarrow> ustring \<Rightarrow> bool" where
  "re_search_from ic p pos [] = (re_match_at ic p pos [] \<noteq> None)"
| "re_search_from ic p pos (c # cs) =
    (re_match_at ic p pos (c # cs) \<noteq> None \<or> re_search_from ic p (Suc pos) cs)"

definition re_search :: "bool \<Rightarrow> regex \<Rightarrow> ustring \<Rightarrow> bool" where
  "re_search ic p s = re_search_from ic p 0 s"

text \<open>
  \<open>re.sub(p, '', s)\<close>: every match, found from left to right, is removed. \<open>skip\<close>
  counts the characters of the current match that are still to be dropped. A match of
  no character removes nothing.
\<close>

fun re_sub_from :: "bool \<Rightarrow> regex \<Rightarrow> nat \<Rightarrow> nat \<Rightarrow> ustring \<Rightarrow> ustring" where
  "re_sub_from ic p pos skip [] = []"
| "re_sub_from ic p pos (Suc skip) (c # cs) = re_sub_from ic p (Suc pos) skip cs"
| "re_sub_from ic p pos 0 (c # cs) =
    (case re_match_at ic p pos (c # cs) of
       None \<Rightarrow> c # re_sub_from ic p (Suc pos) 0 cs
     | Some r \<Rightarrow>
        (case length (c # cs) - length r of
           0 \<Rightarrow> c # re_sub_from ic p (Suc pos) 0 cs
         | Suc k \<Rightarrow> re_sub_from ic p (Suc pos) k cs))"

definition re_sub_empty :: "bool \<Rightarrow> regex \<Rightarrow> ustring \<Rightarrow> ustring" where
  "re_sub_empty ic p s = re_sub_from ic p 0 0 s"

section \<open>\<open>float(s)\<close>\<close>

text \<open>
  Python's \<open>float\<close> on a string: white space around it is dropped; then a sign, digits
  with single underscores between them, a point, digits, and an exponent are read, with
  at least one digit before the exponent. \<open>None\<close> is \<open>ValueError\<close>. The result is the
  exact decimal value. The spellings \<open>inf\<close>, \<open>infinity\<close> and \<open>nan\<close>, which \<open>float\<close>
  also reads, denote no real number and are rejected here.
\<close>

definition digit_part_ok :: "ustring \<Rightarrow> bool" where
  "digit_part_ok s =
    (s \<noteq> [] \<and> is_digit (hd s) \<and> is_digit (last s) \<and>
     list_all (\<lambda>c. is_digit c \<or> c = 95) s \<and> \<not> contains [95, 95] s)"

definition digits_value :: "ustring \<Rightarrow> int" where
  "digits_value s = foldl (\<lambda>acc c. 10 * acc + (c - 48)) 0 (filter is_digit s)"

definition pow10 :: "int \<Rightarrow> real" where
  "pow10 e = (if e \<ge> 0 then 10 ^ nat e else 1 / 10 ^ nat (- e))"

text \<open>The exponent: nothing, or \<open>e\<close> or \<open>E\<close>, an optional sign and digits.\<close>

definition parse_exponent :: "ustring \<Rightarrow> int option" where
  "parse_exponent s =
    (case s of
       [] \<Rightarrow> Some 0
     | c # r \<Rightarrow>
        if c = 101 \<or> c = 69 then
          (case r of
             [] \<Rightarrow> None
           | d # ds \<Rightarrow>
              if d = 45 then (if digit_part_ok ds then Some (- digits_value ds) else None)
              else if d = 43 then (if digit_part_ok ds then Some (digits_value ds) else None)
              else (if digit_part_ok r then Some (digits_value r) else None))
        else None)"

text \<open>The number without its sign: integer digits, then an optional point with optional
  fraction digits, then the exponent.\<close>

definition parse_unsigned :: "ustring \<Rightarrow> real option" where
  "parse_unsigned s =
    (let ip = takeWhile (\<lambda>c. is_digit c \<or> c = 95) s;
         r1 = dropWhile (\<lambda>c. is_digit c \<or> c = 95) s;
         has_point = (r1 \<noteq> [] \<and> hd r1 = 46);
         r2 = (if has_point then tl r1 else r1);
         fp = (if has_point then takeWhile (\<lambda>c. is_digit c \<or> c = 95) r2 else []);
         r3 = (if has_point then dropWhile (\<lambda>c. is_digit c \<or> c = 95) r2 else r2)
     in if (ip = [] \<and> fp = []) \<or> (ip \<noteq> [] \<and> \<not> digit_part_ok ip) \<or>
           (fp \<noteq> [] \<and> \<not> digit_part_ok fp) then None
        else
          (case parse_exponent r3 of
             None \<Rightarrow> None
           | Some e \<Rightarrow>
              Some ((real_of_int (digits_value ip) +
                     real_of_int (digits_value fp) / 10 ^ length (filter is_digit fp)) * pow10 e)))"

definition py_float :: "ustring \<Rightarrow> real option" where
  "py_float s =
    (case strip s of
       [] \<Rightarrow> None
     | c # r \<Rightarrow>
        if c = 45 then map_option uminus (parse_unsigned r)
        else if c = 43 then parse_unsigned r
        else parse_unsigned (c # r))"

section \<open>\<open>core/data_aggregator.py\<close>\<close>

subsection \<open>Tables and cells\<close>

text \<open>
  A table is a pandas \<open>DataFrame\<close>, given by its rows; every row has the columns of
  the frame. A cell is missing (\<open>NaN\<close> or \<open>None\<close>), a string, or a Python number. The
  walker looks at a number both as a number and through \<open>str\<close>, so a number cell
  carries the text \<open>str\<close> gives for it.
\<close>

datatype cell = NaN | Str ustring | Num real ustring

type_synonym dataframe = "cell list list"

definition isna :: "cell \<Rightarrow> bool" where
  "isna c = (c = NaN)"

definition str_of :: "cell \<Rightarrow> ustring" where
  "str_of c = (case c of NaN \<Rightarrow> asc ''nan'' | Str s \<Rightarrow> s | Num x t \<Rightarrow> t)"

definition df_empty :: "dataframe \<Rightarrow> bool" where
  "df_empty df = (case df of [] \<Rightarrow> True | row # _ \<Rightarrow> row = [])"

definition df_columns :: "dataframe \<Rightarrow> nat" where
  "df_columns df = (case df of [] \<Rightarrow> 0 | row # _ \<Rightarrow> length row)"

subsection \<open>The tables of the aggregator\<close>

text \<open>The record starts with every key at 0; these are the keys, in the order of the
  source.\<close>

definition canonical_keys :: "string list" where
  "canonical_keys =
    [''total_assets'', ''total_liabilities'', ''equity'', ''net_income'',
     ''cash_and_equivalents'', ''loans_to_customers'', ''deposits_from_customers'',
     ''operating_income'', ''operating_profit'', ''roa'', ''roe'', ''net_interest_margin'',
     ''cost_to_income_ratio'', ''non_performing_loan_ratio'', ''capital_adequacy_ratio'',
     ''current_liquidity_ratio'', ''instant_liquidity_ratio'', ''digital_penetration'',
     ''mobile_penetration'', ''active_digital_customers'', ''number_of_branches'',
     ''it_staff'', ''api_count'', ''paperless_operations'', ''electronic_signature_usage'',
     ''remote_account_opening'', ''churn_rate'', ''retention_rate'',
     ''products_per_customer'', ''cross_sell_rate'', ''wallet_share'', ''credit_cost'',
     ''loan_loss_provision_coverage'', ''net_interest_income'', ''subordinated_debt'',
     ''interest_earning_assets'', ''interest_bearing_liabilities'', ''net_interest_spread'',
     ''interbank_assets'', ''interbank_liabilities'', ''equity_to_debt_ratio'',
     ''retained_earnings_to_total_assets'', ''ebit_to_total_assets'',
     ''total_assets_turnover'', ''return_on_net_assets'',
     ''return_on_average_total_assets'',
     ''return_on_net_assets_after_deducting_non_recurring'',
     ''interbank_assets_to_interest_earning_assets'',
     ''deposits_to_interest_bearing_liabilities'',
     ''interbank_liabilities_to_interest_bearing_liabilities'']"

definition financial_data_init :: financial_data where
  "financial_data_init = map_of (map (\<lambda>k. (k, 0)) canonical_keys)"

text \<open>
  The label patterns, in the order of the source. The order matters: the first
  indicator with a matching pattern is taken.
\<close>

definition financial_patterns :: "(string \<times> regex list) list" where
  "financial_patterns =
    [(''total_assets'',
       [\<comment> \<open>itogo aktivov\<close>
        lit [1080, 1090, 1086, 1075, 1086, 32, 1072, 1082, 1090, 1080, 1074, 1086, 1074],
        \<comment> \<open>valyuta balansa\<close>
        lit [1074, 1072, 1083, 1102, 1090, 1072, 32, 1073, 1072, 1083, 1072, 1085, 1089,
          1072],
        \<comment> \<open>aktivy vsego\<close>
        lit [1072, 1082, 1090, 1080, 1074, 1099, 32, 1074, 1089, 1077, 1075, 1086],
        \<comment> \<open>^aktivy$\<close>
        [Bol] @ lit [1072, 1082, 1090, 1080, 1074, 1099] @ [Eol],
        \<comment> \<open>aktivy.*konets\<close>
        lit [1072, 1082, 1090, 1080, 1074, 1099] @ [Atom Dot Star] @ lit [1082, 1086, 1085,
          1077, 1094]]),
     (''loans_to_customers'',
       [\<comment> \<open>kredity i avansy klientam\<close>
        lit [1082, 1088, 1077, 1076, 1080, 1090, 1099, 32, 1080, 32, 1072, 1074, 1072, 1085,
          1089, 1099, 32, 1082, 1083, 1080, 1077, 1085, 1090, 1072, 1084],
        \<comment> \<open>kreditnyj portfel'\<close>
        lit [1082, 1088, 1077, 1076, 1080, 1090, 1085, 1099, 1081, 32, 1087, 1086, 1088,
          1090, 1092, 1077, 1083, 1100],
        \<comment> \<open>ssudy klientam\<close>
        lit [1089, 1089, 1091, 1076, 1099, 32, 1082, 1083, 1080, 1077, 1085, 1090, 1072,
          1084],
        \<comment> \<open>vydannye kredity\<close>
        lit [1074, 1099, 1076, 1072, 1085, 1085, 1099, 1077, 32, 1082, 1088, 1077, 1076,
          1080, 1090, 1099],
        \<comment> \<open>kredity.*fizicheskim\<close>
        lit [1082, 1088, 1077, 1076, 1080, 1090, 1099] @ [Atom Dot Star] @ lit [1092, 1080,
          1079, 1080, 1095, 1077, 1089, 1082, 1080, 1084],
        \<comment> \<open>kredity.*yuridicheskim\<close>
        lit [1082, 1088, 1077, 1076, 1080, 1090, 1099] @ [Atom Dot Star] @ lit [1102, 1088,
          1080, 1076, 1080, 1095, 1077, 1089, 1082, 1080, 1084]]),
     (''deposits_from_customers'',
       [\<comment> \<open>depozity\<close>
        lit [1076, 1077, 1087, 1086, 1079, 1080, 1090, 1099],
        \<comment> \<open>privlechennye sredstva\<close>
        lit [1087, 1088, 1080, 1074, 1083, 1077, 1095, 1077, 1085, 1085, 1099, 1077, 32,
          1089, 1088, 1077, 1076, 1089, 1090, 1074, 1072],
        \<comment> \<open>sredstva klientov\<close>
        lit [1089, 1088, 1077, 1076, 1089, 1090, 1074, 1072, 32, 1082, 1083, 1080, 1077,
          1085, 1090, 1086, 1074],
        \<comment> \<open>obyazatel'stva.*klientov\<close>
        lit [1086, 1073, 1103, 1079, 1072, 1090, 1077, 1083, 1100, 1089, 1090, 1074, 1072] @
          [Atom Dot Star] @ lit [1082, 1083, 1080, 1077, 1085, 1090, 1086, 1074],
        \<comment> \<open>vklady\<close>
        lit [1074, 1082, 1083, 1072, 1076, 1099]]),
     (''net_income'',
       [\<comment> \<open>chistaya pribyl'\<close>
        lit [1095, 1080, 1089, 1090, 1072, 1103, 32, 1087, 1088, 1080, 1073, 1099, 1083,
          1100],
        \<comment> \<open>pribyl'.*nalog\<close>
        lit [1087, 1088, 1080, 1073, 1099, 1083, 1100] @ [Atom Dot Star] @ lit [1085, 1072,
          1083, 1086, 1075],
        \<comment> \<open>pribyl' za god\<close>
        lit [1087, 1088, 1080, 1073, 1099, 1083, 1100, 32, 1079, 1072, 32, 1075, 1086, 1076],
        \<comment> \<open>chistaya pribyl'.*god\<close>
        lit [1095, 1080, 1089, 1090, 1072, 1103, 32, 1087, 1088, 1080, 1073, 1099, 1083,
          1100] @ [Atom Dot Star] @ lit [1075, 1086, 1076],
        \<comment> \<open>pribyl'.*otchetnyj period\<close>
        lit [1087, 1088, 1080, 1073, 1099, 1083, 1100] @ [Atom Dot Star] @ lit [1086, 1090,
          1095, 1077, 1090, 1085, 1099, 1081, 32, 1087, 1077, 1088, 1080, 1086, 1076]]),
     (''operating_income'',
       [\<comment> \<open>operatsionnyj dokhod\<close>
        lit [1086, 1087, 1077, 1088, 1072, 1094, 1080, 1086, 1085, 1085, 1099, 1081, 32,
          1076, 1086, 1093, 1086, 1076],
        \<comment> \<open>operatsionnye postupleniya\<close>
        lit [1086, 1087, 1077, 1088, 1072, 1094, 1080, 1086, 1085, 1085, 1099, 1077, 32,
          1087, 1086, 1089, 1090, 1091, 1087, 1083, 1077, 1085, 1080, 1103],
        \<comment> \<open>dokhody ot osnovnoj deyatel'nosti\<close>
        lit [1076, 1086, 1093, 1086, 1076, 1099, 32, 1086, 1090, 32, 1086, 1089, 1085, 1086,
          1074, 1085, 1086, 1081, 32, 1076, 1077, 1103, 1090, 1077, 1083, 1100, 1085, 1086,
          1089, 1090, 1080],
        \<comment> \<open>dokhody.*osnovnaya\<close>
        lit [1076, 1086, 1093, 1086, 1076, 1099] @ [Atom Dot Star] @ lit [1086, 1089, 1085,
          1086, 1074, 1085, 1072, 1103]]),
     (''operating_profit'',
       [\<comment> \<open>operatsionnaya pribyl'\<close>
        lit [1086, 1087, 1077, 1088, 1072, 1094, 1080, 1086, 1085, 1085, 1072, 1103, 32,
          1087, 1088, 1080, 1073, 1099, 1083, 1100],
        \<comment> \<open>pribyl' ot osnovnoj deyatel'nosti\<close>
        lit [1087, 1088, 1080, 1073, 1099, 1083, 1100, 32, 1086, 1090, 32, 1086, 1089, 1085,
          1086, 1074, 1085, 1086, 1081, 32, 1076, 1077, 1103, 1090, 1077, 1083, 1100, 1085,
          1086, 1089, 1090, 1080]]),
     (''roa'',
       [lit (asc ''roa''),
        \<comment> \<open>rentabel'nost' aktivov\<close>
        lit [1088, 1077, 1085, 1090, 1072, 1073, 1077, 1083, 1100, 1085, 1086, 1089, 1090,
          1100, 32, 1072, 1082, 1090, 1080, 1074, 1086, 1074],
        \<comment> \<open>roa\<close>
        lit [1088, 1086, 1072],
        \<comment> \<open>rentabel'nost'.*aktivov\<close>
        lit [1088, 1077, 1085, 1090, 1072, 1073, 1077, 1083, 1100, 1085, 1086, 1089, 1090,
          1100] @ [Atom Dot Star] @ lit [1072, 1082, 1090, 1080, 1074, 1086, 1074]]),
     (''roe'',
       [lit (asc ''roe''),
        \<comment> \<open>rentabel'nost' sobstvennogo kapitala\<close>
        lit [1088, 1077, 1085, 1090, 1072, 1073, 1077, 1083, 1100, 1085, 1086, 1089, 1090,
          1100, 32, 1089, 1086, 1073, 1089, 1090, 1074, 1077, 1085, 1085, 1086, 1075, 1086,
          32, 1082, 1072, 1087, 1080, 1090, 1072, 1083, 1072],
        \<comment> \<open>roe\<close>
        lit [1088, 1086, 1101],
        \<comment> \<open>rentabel'nost'.*kapitala\<close>
        lit [1088, 1077, 1085, 1090, 1072, 1073, 1077, 1083, 1100, 1085, 1086, 1089, 1090,
          1100] @ [Atom Dot Star] @ lit [1082, 1072, 1087, 1080, 1090, 1072, 1083, 1072]]),
     (''net_interest_margin'',
       [\<comment> \<open>chistaya protsentnaya marzha\<close>
        lit [1095, 1080, 1089, 1090, 1072, 1103, 32, 1087, 1088, 1086, 1094, 1077, 1085,
          1090, 1085, 1072, 1103, 32, 1084, 1072, 1088, 1078, 1072],
        \<comment> \<open>protsentnaya marzha\<close>
        lit [1087, 1088, 1086, 1094, 1077, 1085, 1090, 1085, 1072, 1103, 32, 1084, 1072,
          1088, 1078, 1072],
        lit (asc ''npm''),
        \<comment> \<open>chistaya.*marzha\<close>
        lit [1095, 1080, 1089, 1090, 1072, 1103] @ [Atom Dot Star] @ lit [1084, 1072, 1088,
          1078, 1072]]),
     (''cost_to_income_ratio'',
       [\<comment> \<open>zatraty k dokhodu\<close>
        lit [1079, 1072, 1090, 1088, 1072, 1090, 1099, 32, 1082, 32, 1076, 1086, 1093, 1086,
          1076, 1091],
        lit (asc ''cir''),
        \<comment> \<open>otnoshenie zatrat k dokhodu\<close>
        lit [1086, 1090, 1085, 1086, 1096, 1077, 1085, 1080, 1077, 32, 1079, 1072, 1090,
          1088, 1072, 1090, 32, 1082, 32, 1076, 1086, 1093, 1086, 1076, 1091],
        \<comment> \<open>koeffitsient zatrat\<close>
        lit [1082, 1086, 1101, 1092, 1092, 1080, 1094, 1080, 1077, 1085, 1090, 32, 1079,
          1072, 1090, 1088, 1072, 1090]]),
     (''non_performing_loan_ratio'',
       [\<comment> \<open>nerabotayushch.*kredit\<close>
        lit [1085, 1077, 1088, 1072, 1073, 1086, 1090, 1072, 1102, 1097] @ [Atom Dot Star] @
          lit [1082, 1088, 1077, 1076, 1080, 1090],
        lit (asc ''npl''),
        \<comment> \<open>prosrochen.*kredit\<close>
        lit [1087, 1088, 1086, 1089, 1088, 1086, 1095, 1077, 1085] @ [Atom Dot Star] @ lit
          [1082, 1088, 1077, 1076, 1080, 1090],
        \<comment> \<open>stadiya 3\<close>
        lit [1089, 1090, 1072, 1076, 1080, 1103, 32, 51],
        \<comment> \<open>prosrochennaya zadolzhennost'\<close>
        lit [1087, 1088, 1086, 1089, 1088, 1086, 1095, 1077, 1085, 1085, 1072, 1103, 32,
          1079, 1072, 1076, 1086, 1083, 1078, 1077, 1085, 1085, 1086, 1089, 1090, 1100],
        \<comment> \<open>npl\<close>
        lit [1085, 1087, 1083]]),
     (''capital_adequacy_ratio'',
       [\<comment> \<open>koeffitsient.*adekvatnosti\<close>
        lit [1082, 1086, 1101, 1092, 1092, 1080, 1094, 1080, 1077, 1085, 1090] @ [Atom Dot
          Star] @ lit [1072, 1076, 1077, 1082, 1074, 1072, 1090, 1085, 1086, 1089, 1090,
          1080],
        \<comment> \<open>bazel'\<close>
        lit [1073, 1072, 1079, 1077, 1083, 1100],
        \<comment> \<open>kapital.*uroven'\<close>
        lit [1082, 1072, 1087, 1080, 1090, 1072, 1083] @ [Atom Dot Star] @ lit [1091, 1088,
          1086, 1074, 1077, 1085, 1100],
        lit (asc ''cet1''),
        \<comment> \<open>bazovyj kapital\<close>
        lit [1073, 1072, 1079, 1086, 1074, 1099, 1081, 32, 1082, 1072, 1087, 1080, 1090,
          1072, 1083]]),
     (''digital_penetration'',
       [\<comment> \<open>dolya tsifrovykh klientov\<close>
        lit [1076, 1086, 1083, 1103, 32, 1094, 1080, 1092, 1088, 1086, 1074, 1099, 1093, 32,
          1082, 1083, 1080, 1077, 1085, 1090, 1086, 1074],
        \<comment> \<open>tsifrovaya pronitsaemost'\<close>
        lit [1094, 1080, 1092, 1088, 1086, 1074, 1072, 1103, 32, 1087, 1088, 1086, 1085,
          1080, 1094, 1072, 1077, 1084, 1086, 1089, 1090, 1100],
        \<comment> \<open>tsifrovye klienty.*dolya\<close>
        lit [1094, 1080, 1092, 1088, 1086, 1074, 1099, 1077, 32, 1082, 1083, 1080, 1077,
          1085, 1090, 1099] @ [Atom Dot Star] @ lit [1076, 1086, 1083, 1103],
        \<comment> \<open>tsifrovizatsiya.*klientov\<close>
        lit [1094, 1080, 1092, 1088, 1086, 1074, 1080, 1079, 1072, 1094, 1080, 1103] @ [Atom
          Dot Star] @ lit [1082, 1083, 1080, 1077, 1085, 1090, 1086, 1074]]),
     (''mobile_penetration'',
       [\<comment> \<open>mobil'naya pronitsaemost'\<close>
        lit [1084, 1086, 1073, 1080, 1083, 1100, 1085, 1072, 1103, 32, 1087, 1088, 1086,
          1085, 1080, 1094, 1072, 1077, 1084, 1086, 1089, 1090, 1100],
        \<comment> \<open>dolya mobil'nykh klientov\<close>
        lit [1076, 1086, 1083, 1103, 32, 1084, 1086, 1073, 1080, 1083, 1100, 1085, 1099,
          1093, 32, 1082, 1083, 1080, 1077, 1085, 1090, 1086, 1074],
        \<comment> \<open>mobil'nyj banking.*dolya\<close>
        lit [1084, 1086, 1073, 1080, 1083, 1100, 1085, 1099, 1081, 32, 1073, 1072, 1085,
          1082, 1080, 1085, 1075] @ [Atom Dot Star] @ lit [1076, 1086, 1083, 1103],
        \<comment> \<open>mobil'nye.*klienty\<close>
        lit [1084, 1086, 1073, 1080, 1083, 1100, 1085, 1099, 1077] @ [Atom Dot Star] @ lit
          [1082, 1083, 1080, 1077, 1085, 1090, 1099]]),
     (''active_digital_customers'',
       [\<comment> \<open>aktivnye tsifrovye klienty\<close>
        lit [1072, 1082, 1090, 1080, 1074, 1085, 1099, 1077, 32, 1094, 1080, 1092, 1088,
          1086, 1074, 1099, 1077, 32, 1082, 1083, 1080, 1077, 1085, 1090, 1099],
        lit (asc ''mau''),
        \<comment> \<open>aktivnye pol'zovateli\<close>
        lit [1072, 1082, 1090, 1080, 1074, 1085, 1099, 1077, 32, 1087, 1086, 1083, 1100,
          1079, 1086, 1074, 1072, 1090, 1077, 1083, 1080],
        \<comment> \<open>aktivnye klienty.*mobil'nyj\<close>
        lit [1072, 1082, 1090, 1080, 1074, 1085, 1099, 1077, 32, 1082, 1083, 1080, 1077,
          1085, 1090, 1099] @ [Atom Dot Star] @ lit [1084, 1086, 1073, 1080, 1083, 1100,
          1085, 1099, 1081],
        \<comment> \<open>aktivnye.*tsifrovye\<close>
        lit [1072, 1082, 1090, 1080, 1074, 1085, 1099, 1077] @ [Atom Dot Star] @ lit [1094,
          1080, 1092, 1088, 1086, 1074, 1099, 1077]]),
     (''number_of_branches'',
       [\<comment> \<open>kolichestvo otdelenij\<close>
        lit [1082, 1086, 1083, 1080, 1095, 1077, 1089, 1090, 1074, 1086, 32, 1086, 1090,
          1076, 1077, 1083, 1077, 1085, 1080, 1081],
        \<comment> \<open>chislo otdelenij\<close>
        lit [1095, 1080, 1089, 1083, 1086, 32, 1086, 1090, 1076, 1077, 1083, 1077, 1085,
          1080, 1081],
        \<comment> \<open>set' otdelenij\<close>
        lit [1089, 1077, 1090, 1100, 32, 1086, 1090, 1076, 1077, 1083, 1077, 1085, 1080,
          1081],
        \<comment> \<open>otdeleniya i filialy.*kolichestvo\<close>
        lit [1086, 1090, 1076, 1077, 1083, 1077, 1085, 1080, 1103, 32, 1080, 32, 1092, 1080,
          1083, 1080, 1072, 1083, 1099] @ [Atom Dot Star] @ lit [1082, 1086, 1083, 1080,
          1095, 1077, 1089, 1090, 1074, 1086],
        \<comment> \<open>ofisy.*kolichestvo\<close>
        lit [1086, 1092, 1080, 1089, 1099] @ [Atom Dot Star] @ lit [1082, 1086, 1083, 1080,
          1095, 1077, 1089, 1090, 1074, 1086]]),
     (''it_staff'',
       [\<comment> \<open>it-personal\<close>
        lit [105, 116, 45, 1087, 1077, 1088, 1089, 1086, 1085, 1072, 1083],
        \<comment> \<open>tekhnicheskij personal\<close>
        lit [1090, 1077, 1093, 1085, 1080, 1095, 1077, 1089, 1082, 1080, 1081, 32, 1087,
          1077, 1088, 1089, 1086, 1085, 1072, 1083],
        lit (asc ''it staff''),
        \<comment> \<open>sotrudniki.*informatsionnye tekhnologii\<close>
        lit [1089, 1086, 1090, 1088, 1091, 1076, 1085, 1080, 1082, 1080] @ [Atom Dot Star] @
          lit [1080, 1085, 1092, 1086, 1088, 1084, 1072, 1094, 1080, 1086, 1085, 1085, 1099,
          1077, 32, 1090, 1077, 1093, 1085, 1086, 1083, 1086, 1075, 1080, 1080],
        \<comment> \<open>spetsialisty.*it\<close>
        lit [1089, 1087, 1077, 1094, 1080, 1072, 1083, 1080, 1089, 1090, 1099] @ [Atom Dot
          Star] @ lit [1080, 1090]]),
     (''api_count'',
       [lit (asc ''api''),
        \<comment> \<open>interfejs prikladnogo programmirovaniya\<close>
        lit [1080, 1085, 1090, 1077, 1088, 1092, 1077, 1081, 1089, 32, 1087, 1088, 1080,
          1082, 1083, 1072, 1076, 1085, 1086, 1075, 1086, 32, 1087, 1088, 1086, 1075, 1088,
          1072, 1084, 1084, 1080, 1088, 1086, 1074, 1072, 1085, 1080, 1103],
        \<comment> \<open>otkrytye api\<close>
        lit [1086, 1090, 1082, 1088, 1099, 1090, 1099, 1077, 32, 97, 112, 105],
        \<comment> \<open>api.*integratsiya\<close>
        lit (asc ''api'') @ [Atom Dot Star] @ lit [1080, 1085, 1090, 1077, 1075, 1088, 1072,
          1094, 1080, 1103]]),
     (''paperless_operations'',
       [\<comment> \<open>bezbumazhnyj\<close>
        lit [1073, 1077, 1079, 1073, 1091, 1084, 1072, 1078, 1085, 1099, 1081],
        \<comment> \<open>bezbumazhnye operatsii\<close>
        lit [1073, 1077, 1079, 1073, 1091, 1084, 1072, 1078, 1085, 1099, 1077, 32, 1086,
          1087, 1077, 1088, 1072, 1094, 1080, 1080],
        \<comment> \<open>bezbumazhnye protsessy\<close>
        lit [1073, 1077, 1079, 1073, 1091, 1084, 1072, 1078, 1085, 1099, 1077, 32, 1087,
          1088, 1086, 1094, 1077, 1089, 1089, 1099],
        \<comment> \<open>elektronnyj dokumentooborot\<close>
        lit [1101, 1083, 1077, 1082, 1090, 1088, 1086, 1085, 1085, 1099, 1081, 32, 1076,
          1086, 1082, 1091, 1084, 1077, 1085, 1090, 1086, 1086, 1073, 1086, 1088, 1086,
          1090]]),
     (''electronic_signature_usage'',
       [\<comment> \<open>elektronnaya podpis'\<close>
        lit [1101, 1083, 1077, 1082, 1090, 1088, 1086, 1085, 1085, 1072, 1103, 32, 1087,
          1086, 1076, 1087, 1080, 1089, 1100],
        \<comment> \<open>tsifrovaya podpis'\<close>
        lit [1094, 1080, 1092, 1088, 1086, 1074, 1072, 1103, 32, 1087, 1086, 1076, 1087,
          1080, 1089, 1100],
        \<comment> \<open>e-podpis'\<close>
        lit [101, 45, 1087, 1086, 1076, 1087, 1080, 1089, 1100],
        \<comment> \<open>etsp\<close>
        lit [1101, 1094, 1087],
        \<comment> \<open>elektronno-tsifrovaya podpis'\<close>
        lit [1101, 1083, 1077, 1082, 1090, 1088, 1086, 1085, 1085, 1086, 45, 1094, 1080,
          1092, 1088, 1086, 1074, 1072, 1103, 32, 1087, 1086, 1076, 1087, 1080, 1089, 1100]]),
     (''remote_account_opening'',
       [\<comment> \<open>udalennoe otkrytie scheta\<close>
        lit [1091, 1076, 1072, 1083, 1077, 1085, 1085, 1086, 1077, 32, 1086, 1090, 1082,
          1088, 1099, 1090, 1080, 1077, 32, 1089, 1095, 1077, 1090, 1072],
        \<comment> \<open>distantsionnoe otkrytie scheta\<close>
        lit [1076, 1080, 1089, 1090, 1072, 1085, 1094, 1080, 1086, 1085, 1085, 1086, 1077,
          32, 1086, 1090, 1082, 1088, 1099, 1090, 1080, 1077, 32, 1089, 1095, 1077, 1090,
          1072],
        \<comment> \<open>onlajn-otkrytie scheta\<close>
        lit [1086, 1085, 1083, 1072, 1081, 1085, 45, 1086, 1090, 1082, 1088, 1099, 1090,
          1080, 1077, 32, 1089, 1095, 1077, 1090, 1072],
        \<comment> \<open>tsifrovoe otkrytie scheta\<close>
        lit [1094, 1080, 1092, 1088, 1086, 1074, 1086, 1077, 32, 1086, 1090, 1082, 1088,
          1099, 1090, 1080, 1077, 32, 1089, 1095, 1077, 1090, 1072]]),
     (''churn_rate'',
       [\<comment> \<open>koeffitsient ottoka\<close>
        lit [1082, 1086, 1101, 1092, 1092, 1080, 1094, 1080, 1077, 1085, 1090, 32, 1086,
          1090, 1090, 1086, 1082, 1072],
        \<comment> \<open>ottok klientov\<close>
        lit [1086, 1090, 1090, 1086, 1082, 32, 1082, 1083, 1080, 1077, 1085, 1090, 1086,
          1074],
        lit (asc ''churn''),
        \<comment> \<open>ottok.*klienty\<close>
        lit [1086, 1090, 1090, 1086, 1082] @ [Atom Dot Star] @ lit [1082, 1083, 1080, 1077,
          1085, 1090, 1099]]),
     (''retention_rate'',
       [\<comment> \<open>koeffitsient uderzhaniya\<close>
        lit [1082, 1086, 1101, 1092, 1092, 1080, 1094, 1080, 1077, 1085, 1090, 32, 1091,
          1076, 1077, 1088, 1078, 1072, 1085, 1080, 1103],
        \<comment> \<open>uderzhanie klientov\<close>
        lit [1091, 1076, 1077, 1088, 1078, 1072, 1085, 1080, 1077, 32, 1082, 1083, 1080,
          1077, 1085, 1090, 1086, 1074],
        \<comment> \<open>loyal'nost'\<close>
        lit [1083, 1086, 1103, 1083, 1100, 1085, 1086, 1089, 1090, 1100],
        \<comment> \<open>uderzhanie.*klienty\<close>
        lit [1091, 1076, 1077, 1088, 1078, 1072, 1085, 1080, 1077] @ [Atom Dot Star] @ lit
          [1082, 1083, 1080, 1077, 1085, 1090, 1099]]),
     (''products_per_customer'',
       [\<comment> \<open>produkty na klienta\<close>
        lit [1087, 1088, 1086, 1076, 1091, 1082, 1090, 1099, 32, 1085, 1072, 32, 1082, 1083,
          1080, 1077, 1085, 1090, 1072],
        \<comment> \<open>kolichestvo produktov na klienta\<close>
        lit [1082, 1086, 1083, 1080, 1095, 1077, 1089, 1090, 1074, 1086, 32, 1087, 1088,
          1086, 1076, 1091, 1082, 1090, 1086, 1074, 32, 1085, 1072, 32, 1082, 1083, 1080,
          1077, 1085, 1090, 1072],
        \<comment> \<open>srednee chislo produktov\<close>
        lit [1089, 1088, 1077, 1076, 1085, 1077, 1077, 32, 1095, 1080, 1089, 1083, 1086, 32,
          1087, 1088, 1086, 1076, 1091, 1082, 1090, 1086, 1074],
        \<comment> \<open>produktovaya.*korzina\<close>
        lit [1087, 1088, 1086, 1076, 1091, 1082, 1090, 1086, 1074, 1072, 1103] @ [Atom Dot
          Star] @ lit [1082, 1086, 1088, 1079, 1080, 1085, 1072]]),
     (''cross_sell_rate'',
       [\<comment> \<open>kross-prodazhi\<close>
        lit [1082, 1088, 1086, 1089, 1089, 45, 1087, 1088, 1086, 1076, 1072, 1078, 1080],
        \<comment> \<open>perekrestnye prodazhi\<close>
        lit [1087, 1077, 1088, 1077, 1082, 1088, 1077, 1089, 1090, 1085, 1099, 1077, 32,
          1087, 1088, 1086, 1076, 1072, 1078, 1080],
        \<comment> \<open>dopolnitel'nye produkty\<close>
        lit [1076, 1086, 1087, 1086, 1083, 1085, 1080, 1090, 1077, 1083, 1100, 1085, 1099,
          1077, 32, 1087, 1088, 1086, 1076, 1091, 1082, 1090, 1099],
        \<comment> \<open>kross.*prodazhi\<close>
        lit [1082, 1088, 1086, 1089, 1089] @ [Atom Dot Star] @ lit [1087, 1088, 1086, 1076,
          1072, 1078, 1080]]),
     (''wallet_share'',
       [\<comment> \<open>dolya koshel'ka\<close>
        lit [1076, 1086, 1083, 1103, 32, 1082, 1086, 1096, 1077, 1083, 1100, 1082, 1072],
        \<comment> \<open>rynochnaya dolya\<close>
        lit [1088, 1099, 1085, 1086, 1095, 1085, 1072, 1103, 32, 1076, 1086, 1083, 1103],
        \<comment> \<open>dolya rynka\<close>
        lit [1076, 1086, 1083, 1103, 32, 1088, 1099, 1085, 1082, 1072],
        \<comment> \<open>koshelek.*klienta\<close>
        lit [1082, 1086, 1096, 1077, 1083, 1077, 1082] @ [Atom Dot Star] @ lit [1082, 1083,
          1080, 1077, 1085, 1090, 1072]]),
     (''credit_cost'',
       [\<comment> \<open>stoimost' kreditov\<close>
        lit [1089, 1090, 1086, 1080, 1084, 1086, 1089, 1090, 1100, 32, 1082, 1088, 1077,
          1076, 1080, 1090, 1086, 1074],
        \<comment> \<open>stoimost' riska\<close>
        lit [1089, 1090, 1086, 1080, 1084, 1086, 1089, 1090, 1100, 32, 1088, 1080, 1089,
          1082, 1072],
        \<comment> \<open>kor\<close>
        lit [1082, 1086, 1088],
        \<comment> \<open>rezervy.*kreditnye ubytki\<close>
        lit [1088, 1077, 1079, 1077, 1088, 1074, 1099] @ [Atom Dot Star] @ lit [1082, 1088,
          1077, 1076, 1080, 1090, 1085, 1099, 1077, 32, 1091, 1073, 1099, 1090, 1082, 1080],
        \<comment> \<open>stoimost'.*kreditovaniya\<close>
        lit [1089, 1090, 1086, 1080, 1084, 1086, 1089, 1090, 1100] @ [Atom Dot Star] @ lit
          [1082, 1088, 1077, 1076, 1080, 1090, 1086, 1074, 1072, 1085, 1080, 1103]]),
     (''loan_loss_provision_coverage'',
       [\<comment> \<open>rezervy pod kreditnye ubytki k problemnym kreditam\<close>
        lit [1088, 1077, 1079, 1077, 1088, 1074, 1099, 32, 1087, 1086, 1076, 32, 1082, 1088,
          1077, 1076, 1080, 1090, 1085, 1099, 1077, 32, 1091, 1073, 1099, 1090, 1082, 1080,
          32, 1082, 32, 1087, 1088, 1086, 1073, 1083, 1077, 1084, 1085, 1099, 1084, 32,
          1082, 1088, 1077, 1076, 1080, 1090, 1072, 1084],
        \<comment> \<open>koeffitsient rezervirovaniya\<close>
        lit [1082, 1086, 1101, 1092, 1092, 1080, 1094, 1080, 1077, 1085, 1090, 32, 1088,
          1077, 1079, 1077, 1088, 1074, 1080, 1088, 1086, 1074, 1072, 1085, 1080, 1103],
        \<comment> \<open>pokrytie npl rezervami\<close>
        lit [1087, 1086, 1082, 1088, 1099, 1090, 1080, 1077, 32, 1085, 1087, 1083, 32, 1088,
          1077, 1079, 1077, 1088, 1074, 1072, 1084, 1080],
        \<comment> \<open>rezervy.*npl\<close>
        lit [1088, 1077, 1079, 1077, 1088, 1074, 1099] @ [Atom Dot Star] @ lit [1085, 1087,
          1083]]),
     (''net_interest_income'',
       [\<comment> \<open>chistyj protsentnyj dokhod\<close>
        lit [1095, 1080, 1089, 1090, 1099, 1081, 32, 1087, 1088, 1086, 1094, 1077, 1085,
          1090, 1085, 1099, 1081, 32, 1076, 1086, 1093, 1086, 1076],
        \<comment> \<open>protsentnyj dokhod.*chistyj\<close>
        lit [1087, 1088, 1086, 1094, 1077, 1085, 1090, 1085, 1099, 1081, 32, 1076, 1086,
          1093, 1086, 1076] @ [Atom Dot Star] @ lit [1095, 1080, 1089, 1090, 1099, 1081],
        lit (asc ''nii'')]),
     (''subordinated_debt'',
       [\<comment> \<open>subordinirovannyj dolg\<close>
        lit [1089, 1091, 1073, 1086, 1088, 1076, 1080, 1085, 1080, 1088, 1086, 1074, 1072,
          1085, 1085, 1099, 1081, 32, 1076, 1086, 1083, 1075],
        \<comment> \<open>subordinirovannye obyazatel'stva\<close>
        lit [1089, 1091, 1073, 1086, 1088, 1076, 1080, 1085, 1080, 1088, 1086, 1074, 1072,
          1085, 1085, 1099, 1077, 32, 1086, 1073, 1103, 1079, 1072, 1090, 1077, 1083, 1100,
          1089, 1090, 1074, 1072]]),
     (''interest_earning_assets'',
       [\<comment> \<open>protsentnye aktivy\<close>
        lit [1087, 1088, 1086, 1094, 1077, 1085, 1090, 1085, 1099, 1077, 32, 1072, 1082,
          1090, 1080, 1074, 1099],
        \<comment> \<open>dokhodnye aktivy\<close>
        lit [1076, 1086, 1093, 1086, 1076, 1085, 1099, 1077, 32, 1072, 1082, 1090, 1080,
          1074, 1099]]),
     (''interest_bearing_liabilities'',
       [\<comment> \<open>protsentnye obyazatel'stva\<close>
        lit [1087, 1088, 1086, 1094, 1077, 1085, 1090, 1085, 1099, 1077, 32, 1086, 1073,
          1103, 1079, 1072, 1090, 1077, 1083, 1100, 1089, 1090, 1074, 1072],
        \<comment> \<open>dokhodnye obyazatel'stva\<close>
        lit [1076, 1086, 1093, 1086, 1076, 1085, 1099, 1077, 32, 1086, 1073, 1103, 1079,
          1072, 1090, 1077, 1083, 1100, 1089, 1090, 1074, 1072]]),
     (''net_interest_spread'',
       [\<comment> \<open>protsentnyj spred\<close>
        lit [1087, 1088, 1086, 1094, 1077, 1085, 1090, 1085, 1099, 1081, 32, 1089, 1087,
          1088, 1077, 1076],
        \<comment> \<open>raznitsa stavok\<close>
        lit [1088, 1072, 1079, 1085, 1080, 1094, 1072, 32, 1089, 1090, 1072, 1074, 1086,
          1082]]),
     (''interbank_assets'',
       [\<comment> \<open>mezhbankovskie aktivy\<close>
        lit [1084, 1077, 1078, 1073, 1072, 1085, 1082, 1086, 1074, 1089, 1082, 1080, 1077,
          32, 1072, 1082, 1090, 1080, 1074, 1099],
        \<comment> \<open>aktivy.*mezhbank\<close>
        lit [1072, 1082, 1090, 1080, 1074, 1099] @ [Atom Dot Star] @ lit [1084, 1077, 1078,
          1073, 1072, 1085, 1082]]),
     (''interbank_liabilities'',
       [\<comment> \<open>mezhbankovskie obyazatel'stva\<close>
        lit [1084, 1077, 1078, 1073, 1072, 1085, 1082, 1086, 1074, 1089, 1082, 1080, 1077,
          32, 1086, 1073, 1103, 1079, 1072, 1090, 1077, 1083, 1100, 1089, 1090, 1074, 1072],
        \<comment> \<open>obyazatel'stva.*mezhbank\<close>
        lit [1086, 1073, 1103, 1079, 1072, 1090, 1077, 1083, 1100, 1089, 1090, 1074, 1072] @
          [Atom Dot Star] @ lit [1084, 1077, 1078, 1073, 1072, 1085, 1082]]),
     (''equity_to_debt_ratio'',
       [\<comment> \<open>sootnoshenie sobstvennogo kapitala k zaemnomu\<close>
        lit [1089, 1086, 1086, 1090, 1085, 1086, 1096, 1077, 1085, 1080, 1077, 32, 1089,
          1086, 1073, 1089, 1090, 1074, 1077, 1085, 1085, 1086, 1075, 1086, 32, 1082, 1072,
          1087, 1080, 1090, 1072, 1083, 1072, 32, 1082, 32, 1079, 1072, 1077, 1084, 1085,
          1086, 1084, 1091],
        \<comment> \<open>kapital.*dolg\<close>
        lit [1082, 1072, 1087, 1080, 1090, 1072, 1083] @ [Atom Dot Star] @ lit [1076, 1086,
          1083, 1075]]),
     (''retained_earnings_to_total_assets'',
       [\<comment> \<open>sootnoshenie neraspredelennoj pribyli k aktivam\<close>
        lit [1089, 1086, 1086, 1090, 1085, 1086, 1096, 1077, 1085, 1080, 1077, 32, 1085,
          1077, 1088, 1072, 1089, 1087, 1088, 1077, 1076, 1077, 1083, 1077, 1085, 1085,
          1086, 1081, 32, 1087, 1088, 1080, 1073, 1099, 1083, 1080, 32, 1082, 32, 1072,
          1082, 1090, 1080, 1074, 1072, 1084],
        \<comment> \<open>neraspredelennaya pribyl'.*aktivy\<close>
        lit [1085, 1077, 1088, 1072, 1089, 1087, 1088, 1077, 1076, 1077, 1083, 1077, 1085,
          1085, 1072, 1103, 32, 1087, 1088, 1080, 1073, 1099, 1083, 1100] @ [Atom Dot Star]
          @ lit [1072, 1082, 1090, 1080, 1074, 1099]]),
     (''ebit_to_total_assets'',
       [\<comment> \<open>sootnoshenie pribyli do vycheta protsentov i nalogov k aktivam\<close>
        lit [1089, 1086, 1086, 1090, 1085, 1086, 1096, 1077, 1085, 1080, 1077, 32, 1087,
          1088, 1080, 1073, 1099, 1083, 1080, 32, 1076, 1086, 32, 1074, 1099, 1095, 1077,
          1090, 1072, 32, 1087, 1088, 1086, 1094, 1077, 1085, 1090, 1086, 1074, 32, 1080,
          32, 1085, 1072, 1083, 1086, 1075, 1086, 1074, 32, 1082, 32, 1072, 1082, 1090,
          1080, 1074, 1072, 1084],
        \<comment> \<open>ebit.*aktivy\<close>
        lit (asc ''ebit'') @ [Atom Dot Star] @ lit [1072, 1082, 1090, 1080, 1074, 1099]]),
     (''total_assets_turnover'',
       [\<comment> \<open>oborachivaemost' aktivov\<close>
        lit [1086, 1073, 1086, 1088, 1072, 1095, 1080, 1074, 1072, 1077, 1084, 1086, 1089,
          1090, 1100, 32, 1072, 1082, 1090, 1080, 1074, 1086, 1074],
        \<comment> \<open>oborot aktivov\<close>
        lit [1086, 1073, 1086, 1088, 1086, 1090, 32, 1072, 1082, 1090, 1080, 1074, 1086,
          1074]]),
     (''return_on_net_assets'',
       [\<comment> \<open>rentabel'nost' chistykh aktivov\<close>
        lit [1088, 1077, 1085, 1090, 1072, 1073, 1077, 1083, 1100, 1085, 1086, 1089, 1090,
          1100, 32, 1095, 1080, 1089, 1090, 1099, 1093, 32, 1072, 1082, 1090, 1080, 1074,
          1086, 1074],
        \<comment> \<open>rna\<close>
        lit [1088, 1085, 1072]]),
     (''return_on_average_total_assets'',
       [\<comment> \<open>rentabel'nost' srednikh aktivov\<close>
        lit [1088, 1077, 1085, 1090, 1072, 1073, 1077, 1083, 1100, 1085, 1086, 1089, 1090,
          1100, 32, 1089, 1088, 1077, 1076, 1085, 1080, 1093, 32, 1072, 1082, 1090, 1080,
          1074, 1086, 1074],
        \<comment> \<open>rsna\<close>
        lit [1088, 1089, 1085, 1072]]),
     (''return_on_net_assets_after_deducting_non_recurring'',
       [\<comment> \<open>rentabel'nost' chistykh aktivov posle isklyucheniya razovykh faktorov\<close>
        lit [1088, 1077, 1085, 1090, 1072, 1073, 1077, 1083, 1100, 1085, 1086, 1089, 1090,
          1100, 32, 1095, 1080, 1089, 1090, 1099, 1093, 32, 1072, 1082, 1090, 1080, 1074,
          1086, 1074, 32, 1087, 1086, 1089, 1083, 1077, 32, 1080, 1089, 1082, 1083, 1102,
          1095, 1077, 1085, 1080, 1103, 32, 1088, 1072, 1079, 1086, 1074, 1099, 1093, 32,
          1092, 1072, 1082, 1090, 1086, 1088, 1086, 1074],
        \<comment> \<open>rnaposle\<close>
        lit [1088, 1085, 1072, 1087, 1086, 1089, 1083, 1077]]),
     (''interbank_assets_to_interest_earning_assets'',
       [\<comment> \<open>sootnoshenie mezhbankovskikh aktivov k protsentnym aktivam\<close>
        lit [1089, 1086, 1086, 1090, 1085, 1086, 1096, 1077, 1085, 1080, 1077, 32, 1084,
          1077, 1078, 1073, 1072, 1085, 1082, 1086, 1074, 1089, 1082, 1080, 1093, 32, 1072,
          1082, 1090, 1080, 1074, 1086, 1074, 32, 1082, 32, 1087, 1088, 1086, 1094, 1077,
          1085, 1090, 1085, 1099, 1084, 32, 1072, 1082, 1090, 1080, 1074, 1072, 1084],
        \<comment> \<open>mezhbank.*dokhodnye aktivy\<close>
        lit [1084, 1077, 1078, 1073, 1072, 1085, 1082] @ [Atom Dot Star] @ lit [1076, 1086,
          1093, 1086, 1076, 1085, 1099, 1077, 32, 1072, 1082, 1090, 1080, 1074, 1099]]),
     (''deposits_to_interest_bearing_liabilities'',
       [\<comment> \<open>sootnoshenie depozitov k protsentnym obyazatel'stvam\<close>
        lit [1089, 1086, 1086, 1090, 1085, 1086, 1096, 1077, 1085, 1080, 1077, 32, 1076,
          1077, 1087, 1086, 1079, 1080, 1090, 1086, 1074, 32, 1082, 32, 1087, 1088, 1086,
          1094, 1077, 1085, 1090, 1085, 1099, 1084, 32, 1086, 1073, 1103, 1079, 1072, 1090,
          1077, 1083, 1100, 1089, 1090, 1074, 1072, 1084],
        \<comment> \<open>depozity.*protsentnye obyazatel'stva\<close>
        lit [1076, 1077, 1087, 1086, 1079, 1080, 1090, 1099] @ [Atom Dot Star] @ lit [1087,
          1088, 1086, 1094, 1077, 1085, 1090, 1085, 1099, 1077, 32, 1086, 1073, 1103, 1079,
          1072, 1090, 1077, 1083, 1100, 1089, 1090, 1074, 1072]]),
     (''interbank_liabilities_to_interest_bearing_liabilities'',
       [\<comment> \<open>sootnoshenie mezhbankovskikh obyazatel'stv k protsentnym obyazatel'stvam\<close>
        lit [1089, 1086, 1086, 1090, 1085, 1086, 1096, 1077, 1085, 1080, 1077, 32, 1084,
          1077, 1078, 1073, 1072, 1085, 1082, 1086, 1074, 1089, 1082, 1080, 1093, 32, 1086,
          1073, 1103, 1079, 1072, 1090, 1077, 1083, 1100, 1089, 1090, 1074, 32, 1082, 32,
          1087, 1088, 1086, 1094, 1077, 1085, 1090, 1085, 1099, 1084, 32, 1086, 1073, 1103,
          1079, 1072, 1090, 1077, 1083, 1100, 1089, 1090, 1074, 1072, 1084],
        \<comment> \<open>mezhbank.*protsentnye obyazatel'stva\<close>
        lit [1084, 1077, 1078, 1073, 1072, 1085, 1082] @ [Atom Dot Star] @ lit [1087, 1088,
          1086, 1094, 1077, 1085, 1090, 1085, 1099, 1077, 32, 1086, 1073, 1103, 1079, 1072,
          1090, 1077, 1083, 1100, 1089, 1090, 1074, 1072]])]"

text \<open>
  The unit patterns, in the order of the source. They are raw strings with doubled
  backslashes, so the long forms ask for backslashes in the text: the first one reads
  \<open>mlrd\<close>, a backslash, an optional character, a backslash, any number of \<open>s\<close>,
  \<open>r\<close>, a backslash, an optional character. The short forms are \<open>mlrd\<close>, \<open>mln\<close>
  and \<open>tys\<close>.
\<close>

definition unit_patterns :: "(regex \<times> real) list" where
  "unit_patterns =
    [(lit [1084, 1083, 1088, 1076, 92] @ [Atom Dot Opt] @ lit [92] @ [Atom (Chr 115) Star] @
       lit [1088, 92] @ [Atom Dot Opt], 10 ^ 9),
     (lit [1084, 1083, 1088, 1076, 92] @ [Atom Dot Opt] @ lit [92] @ [Atom (Chr 115) Star] @
       lit [1088, 1091, 1073, 92] @ [Atom Dot Opt], 10 ^ 9),
     (lit [1084, 1083, 1088, 1076], 10 ^ 9),
     (lit [1084, 1083, 1085, 92] @ [Atom Dot Opt] @ lit [92] @ [Atom (Chr 115) Star] @ lit
       [1088, 92] @ [Atom Dot Opt], 10 ^ 6),
     (lit [1084, 1083, 1085, 92] @ [Atom Dot Opt] @ lit [92] @ [Atom (Chr 115) Star] @ lit
       [1088, 1091, 1073, 92] @ [Atom Dot Opt], 10 ^ 6),
     (lit [1084, 1083, 1085], 10 ^ 6),
     (lit [1090, 1099, 1089, 92] @ [Atom Dot Opt] @ lit [92] @ [Atom (Chr 115) Star] @ lit
       [1088, 92] @ [Atom Dot Opt], 10 ^ 3),
     (lit [1090, 1099, 1089, 92] @ [Atom Dot Opt] @ lit [92] @ [Atom (Chr 115) Star] @ lit
       [1088, 1091, 1073, 92] @ [Atom Dot Opt], 10 ^ 3),
     (lit [1090, 1099, 1089], 10 ^ 3)]"

text \<open>
  \<open>pattern.upper()\<close>, as the row scan uses it: the letters of the pattern text are
  put in upper case. In the unit patterns every letter stands for itself (the \<open>s\<close>
  follows an escaped backslash), so this is the upper case of the literal characters.
\<close>

definition upper_regex :: "regex \<Rightarrow> regex" where
  "upper_regex p =
    map (\<lambda>i. case i of Atom (Chr c) q \<Rightarrow> Atom (Chr (upper_cp c)) q | _ \<Rightarrow> i) p"

definition percentage_indicators :: "string list" where
  "percentage_indicators =
    [''roa'', ''roe'', ''net_interest_margin'', ''cost_to_income_ratio'',
     ''non_performing_loan_ratio'', ''capital_adequacy_ratio'', ''churn_rate'',
     ''retention_rate'', ''digital_penetration'', ''mobile_penetration'', ''wallet_share'',
     ''credit_cost'', ''loan_loss_provision_coverage'', ''return_on_net_assets'',
     ''return_on_average_total_assets'',
     ''return_on_net_assets_after_deducting_non_recurring'']"

definition assumed_billions_indicators :: "string list" where
  "assumed_billions_indicators =
    [''total_assets'', ''loans_to_customers'', ''deposits_from_customers'', ''net_income'',
     ''operating_income'']"

text \<open>The class of the rouble sign (8381), the dollar sign, the euro sign (8364),
  the percent sign and white space, at least once, at the end.\<close>

definition trailing_junk :: regex where
  "trailing_junk = [Atom (Cls False [CChar 8381, CChar 36, CChar 8364, CChar 37, CSpace]) Plus, Eol]"

text \<open>\<open>^[^\d\-\.]+\<close>: everything before the first digit, minus sign or point.\<close>

definition leading_junk :: regex where
  "leading_junk = [Bol, Atom (Cls True [CDigit, CChar 45, CChar 46]) Plus]"

text \<open>\<open>^[\d\s\.,%\-]+$\<close>: a cell of digits, white space, points, commas, percent signs
  and minus signs only.\<close>

definition numeric_cell :: regex where
  "numeric_cell =
    [Bol, Atom (Cls False [CDigit, CSpace, CChar 46, CChar 44, CChar 37, CChar 45]) Plus, Eol]"

subsection \<open>\<open>parse_russian_number\<close>\<close>

text \<open>
  The block "Handle Russian format" of \<open>parse_russian_number\<close>: what becomes of the
  cleaned text before \<open>float\<close> reads it. 44 is the comma, 46 the point, 32 the space and
  160 the no-break space.
\<close>

definition comma_is_decimal :: "ustring \<Rightarrow> bool" where
  "comma_is_decimal val_str =
    (44 \<in> set val_str \<and>
     (let parts = rsplit_comma val_str
      in isdigit (strip (snd parts)) \<and> length (strip (snd parts)) \<le> 3))"

definition russian_format :: "ustring \<Rightarrow> ustring" where
  "russian_format val_str =
    (if 44 \<in> set val_str then
       (let parts = rsplit_comma val_str in
        if isdigit (strip (snd parts)) \<and> length (strip (snd parts)) \<le> 3 then
          (let integer_part = remove_char 160 (remove_char 32 (fst parts));
               decimal_part = strip (snd parts)
           in integer_part @ [46] @ decimal_part)
        else remove_char 160 (remove_char 32 (remove_char 44 val_str)))
     else remove_char 160 (remove_char 32 val_str))"

text \<open>The cleaning before that block: no-break spaces made spaces, the text stripped,
  junk removed at the end and then at the beginning.\<close>

definition clean_text :: "ustring \<Rightarrow> ustring" where
  "clean_text v =
    re_sub_empty False leading_junk
      (re_sub_empty False trailing_junk (strip (replace_char 160 32 v)))"

text \<open>The text that reaches \<open>float\<close>.\<close>

definition number_text :: "ustring \<Rightarrow> ustring" where
  "number_text v = russian_format (clean_text v)"

text \<open>The magnitude guard: \<open>abs(num) > 1e16 or (abs(num) < 1e-6 and num != 0)\<close>.\<close>

definition implausible :: "real \<Rightarrow> bool" where
  "implausible num = (\<bar>num\<bar> > 10 ^ 16 \<or> (\<bar>num\<bar> < 1 / 10 ^ 6 \<and> num \<noteq> 0))"

text \<open>8212 is the em dash and 8211 the en dash.\<close>

definition parse_russian_number :: "cell \<Rightarrow> real option" where
  "parse_russian_number v =
    (case v of
       NaN \<Rightarrow> None
     | Num x t \<Rightarrow> Some x
     | Str s \<Rightarrow>
        if s = [] \<or> s = [45] \<or> s = [8212] \<or> s = [8211] then None
        else
          (case py_float (number_text s) of
             None \<Rightarrow> None
           | Some num \<Rightarrow> if implausible num then None else Some num))"

subsection \<open>\<open>parse_number_with_unit\<close>\<close>

text \<open>
  The loop over the unit patterns: a pattern that is found is removed from the text and
  the rest is parsed; when the rest does not parse, the loop goes on with the next
  pattern. \<open>None\<close> means that the loop ended without a \<open>return\<close>.
\<close>

fun try_unit_patterns :: "(regex \<times> real) list \<Rightarrow> ustring \<Rightarrow> (real \<times> real) option" where
  "try_unit_patterns [] val_str = None"
| "try_unit_patterns ((pattern, multiplier) # rest) val_str =
    (if re_search True pattern val_str then
       (let clean_str = strip (re_sub_empty True pattern val_str) in
        case parse_russian_number (Str clean_str) of
          Some num \<Rightarrow> Some (num, multiplier)
        | None \<Rightarrow> try_unit_patterns rest val_str)
     else try_unit_patterns rest val_str)"

definition parse_number_with_unit :: "cell \<Rightarrow> real option \<times> real" where
  "parse_number_with_unit v =
    (case v of
       NaN \<Rightarrow> (None, 1)
     | Str s \<Rightarrow>
        if s = [] \<or> s = [45] \<or> s = [8212] then (None, 1)
        else
          (let val_str = strip (replace_char 160 32 s) in
           case try_unit_patterns unit_patterns val_str of
             Some (num, multiplier) \<Rightarrow> (Some num, multiplier)
           | None \<Rightarrow> (parse_russian_number (Str val_str), 1))
     | Num x t \<Rightarrow> (Some x, 1))"

subsection \<open>\<open>detect_units_in_context\<close> and \<open>is_table_header\<close>\<close>

text \<open>The multiplier of the first unit pattern that \<open>re.search\<close> finds in a text.\<close>

fun first_unit :: "bool \<Rightarrow> (regex \<times> real) list \<Rightarrow> ustring \<Rightarrow> real option" where
  "first_unit ic [] s = None"
| "first_unit ic ((pattern, multiplier) # rest) s =
    (if re_search ic pattern s then Some multiplier else first_unit ic rest s)"

definition cell_unit :: "cell \<Rightarrow> real option" where
  "cell_unit c = (case c of Str s \<Rightarrow> first_unit True unit_patterns s | _ \<Rightarrow> None)"

definition detect_units_in_context :: "cell list \<Rightarrow> nat \<Rightarrow> real" where
  "detect_units_in_context row col_idx =
    (case (if col_idx < length row then cell_unit (row ! col_idx) else None) of
       Some multiplier \<Rightarrow> multiplier
     | None \<Rightarrow>
        (case (if col_idx + 1 < length row then cell_unit (row ! (col_idx + 1)) else None) of
           Some multiplier \<Rightarrow> multiplier
         | None \<Rightarrow>
            (case (if 1 \<le> col_idx then cell_unit (row ! (col_idx - 1)) else None) of
               Some multiplier \<Rightarrow> multiplier
             | None \<Rightarrow> 1)))"

text \<open>The header marker is \<open>tablitsa #\<close>.\<close>

definition is_table_header :: "cell list \<Rightarrow> bool" where
  "is_table_header row =
    (case row of
       [] \<Rightarrow> False
     | c # _ \<Rightarrow>
        if isna c then False
        else contains [1090, 1072, 1073, 1083, 1080, 1094, 1072, 32, 35]
               (lower (strip (str_of c))))"

subsection \<open>One row\<close>

text \<open>The scan of the first ten columns for units; it updates \<open>current_units\<close>.\<close>

definition scan_cell_units :: "cell list \<Rightarrow> nat \<Rightarrow> (nat \<rightharpoonup> real) \<Rightarrow> (nat \<rightharpoonup> real)" where
  "scan_cell_units row col_idx current_units =
    (case row ! col_idx of
       Str cell \<Rightarrow>
        (let cell_upper = strip (upper cell) in
         case first_unit False (map (\<lambda>(pattern, multiplier). (upper_regex pattern, multiplier))
                unit_patterns) cell_upper of
           Some multiplier \<Rightarrow> current_units(col_idx \<mapsto> multiplier)
         | None \<Rightarrow> current_units)
     | _ \<Rightarrow> current_units)"

definition scan_units :: "cell list \<Rightarrow> (nat \<rightharpoonup> real) \<Rightarrow> (nat \<rightharpoonup> real)" where
  "scan_units row current_units =
    fold (scan_cell_units row) [0 ..< min 10 (length row)] current_units"

text \<open>The cells that are not missing and whose stripped text has more than one
  character, with their column numbers.\<close>

definition non_empty_cells :: "cell list \<Rightarrow> (nat \<times> cell) list" where
  "non_empty_cells row =
    filter (\<lambda>(i, cell). \<not> isna cell \<and> strip (str_of cell) \<noteq> [] \<and> length (strip (str_of cell)) > 1)
      (enumerate 0 row)"

text \<open>
  The loop that joins the leading cells into the indicator name. It stops at the first
  cell that looks like a number or is shorter than three characters and remembers its
  index; when it does not stop, \<open>value_start_idx\<close> keeps its initial value 0.
\<close>

fun collect_indicator :: "(nat \<times> cell) list \<Rightarrow> nat \<Rightarrow> ustring list \<Rightarrow> ustring list \<times> nat" where
  "collect_indicator [] i indicator_parts = (indicator_parts, 0)"
| "collect_indicator ((col_idx, cell) # rest) i indicator_parts =
    (let cell_str = strip (str_of cell) in
     if re_match False numeric_cell cell_str \<or> length cell_str < 3 then (indicator_parts, i)
     else collect_indicator rest (Suc i) (indicator_parts @ [cell_str]))"

fun join_space :: "ustring list \<Rightarrow> ustring" where
  "join_space [] = []"
| "join_space [s] = s"
| "join_space (s # t # rest) = s @ [32] @ join_space (t # rest)"

text \<open>The first indicator one of whose patterns is found in the name.\<close>

fun find_indicator :: "(string \<times> regex list) list \<Rightarrow> ustring \<Rightarrow> string option" where
  "find_indicator [] indicator_name = None"
| "find_indicator ((param_name, patterns) # rest) indicator_name =
    (if list_ex (\<lambda>pattern. re_search True pattern indicator_name) patterns then Some param_name
     else find_indicator rest indicator_name)"

text \<open>
  What is stored for one parsed value: \<open>None\<close> is the \<open>continue\<close> of the percentage
  guard, \<open>Some final_value\<close> the value written to the record.
\<close>

definition resolve_value :: "string \<Rightarrow> real \<Rightarrow> real \<Rightarrow> real option" where
  "resolve_value param_name num multiplier =
    (let is_percentage = (param_name \<in> set percentage_indicators) in
     if is_percentage then
       (if num > 100 \<and> multiplier = 1 then None else Some num)
     else
       (let final_value = num * multiplier in
        if param_name \<in> set assumed_billions_indicators \<and> final_value < 10 ^ 12 \<and>
           multiplier = 1 \<and> num > 1
        then Some (final_value * 10 ^ 9)
        else Some final_value))"

text \<open>\<open>current_units.get(col_idx, detect_units_in_context(row, col_idx))\<close>.\<close>

definition context_multiplier :: "(nat \<rightharpoonup> real) \<Rightarrow> cell list \<Rightarrow> nat \<Rightarrow> real" where
  "context_multiplier current_units row col_idx =
    (case current_units col_idx of
       Some m \<Rightarrow> m
     | None \<Rightarrow> detect_units_in_context row col_idx)"

text \<open>The loop over the value cells of a row whose indicator is \<open>param_name\<close>.\<close>

fun extract_values ::
  "string \<Rightarrow> cell list \<Rightarrow> (nat \<rightharpoonup> real) \<Rightarrow> (nat \<times> cell) list \<Rightarrow> financial_data \<Rightarrow> financial_data"
where
  "extract_values param_name row current_units [] fd = fd"
| "extract_values param_name row current_units ((col_idx, cell_value) # rest) fd =
    (case parse_number_with_unit cell_value of
       (None, inline_multiplier) \<Rightarrow> extract_values param_name row current_units rest fd
     | (Some num, inline_multiplier) \<Rightarrow>
        (let multiplier = inline_multiplier * context_multiplier current_units row col_idx
         in case resolve_value param_name num multiplier of
              None \<Rightarrow> extract_values param_name row current_units rest fd
            | Some final_value \<Rightarrow>
               extract_values param_name row current_units rest (fd(param_name \<mapsto> final_value))))"

text \<open>The body of the loop over the rows. The state is \<open>current_units\<close> and the record.\<close>

definition process_row ::
  "cell list \<Rightarrow> (nat \<rightharpoonup> real) \<times> financial_data \<Rightarrow> (nat \<rightharpoonup> real) \<times> financial_data" where
  "process_row row st =
    (if is_table_header row \<or> list_all isna row then st
     else
       (let current_units = scan_units row (fst st);
            non_empty = non_empty_cells row
        in if length non_empty < 2 then (current_units, snd st)
           else
             (let found = collect_indicator (take 3 non_empty) 0 [];
                  indicator_parts = fst found;
                  value_start_idx = snd found
              in if indicator_parts = [] then (current_units, snd st)
                 else
                   (let indicator_name = lower (join_space indicator_parts) in
                    case find_indicator financial_patterns indicator_name of
                      None \<Rightarrow> (current_units, snd st)
                    | Some param_name \<Rightarrow>
                       (current_units,
                        extract_values param_name row current_units
                          (drop value_start_idx non_empty) (snd st))))))"

subsection \<open>\<open>aggregate_financial_data\<close>\<close>

definition process_table :: "dataframe \<Rightarrow> financial_data \<Rightarrow> financial_data" where
  "process_table df fd =
    (if df_empty df \<or> df_columns df < 2 then fd
     else snd (fold process_row df (Map.empty, fd)))"

definition aggregate_financial_data :: "dataframe list \<Rightarrow> financial_data" where
  "aggregate_financial_data tables = fold process_table tables financial_data_init"

section \<open>The comma rule as the specification words it\<close>

text \<open>
  The specification says that a comma is a decimal separator only when it is followed by
  one to three digits that are the whole remainder after the comma. This is that
  condition, on the cleaned text, to be compared with \<open>comma_is_decimal\<close> of the source.
\<close>

definition spec_comma_is_decimal :: "ustring \<Rightarrow> bool" where
  "spec_comma_is_decimal val_str =
    (44 \<in> set val_str \<and> isdigit (snd (rsplit_comma val_str)) \<and>
     length (snd (rsplit_comma val_str)) \<le> 3)"

text \<open>A table of scores is in range when every score in it lies between 0 and 1.\<close>

definition scores_ok :: "(string \<rightharpoonup> real) \<Rightarrow> bool" where
  "scores_ok ns = (\<forall>n s. ns n = Some s \<longrightarrow> 0 \<le> s \<and> s \<le> 1)"


section \<open>Properties of the ratio calculator and of the stability index\<close>

lemma bind_err_Inr [simp]: "bind_err (Inr x) f = f x"
  by (simp add: bind_err_def)

lemma bind_err_Inl [simp]: "bind_err (Inl e) f = Inl e"
  by (simp add: bind_err_def)

lemma thresholds_lookup:
  "RATIOS_THRESHOLDS ''capital_adequacy'' = Inr (0.08, 0.12)"
  "RATIOS_THRESHOLDS ''instant_liquidity'' = Inr (0.15, 0.25)"
  "RATIOS_THRESHOLDS ''current_liquidity'' = Inr (1.0, 1.5)"
  "RATIOS_THRESHOLDS ''roe'' = Inr (0.10, 0.15)"
  "RATIOS_THRESHOLDS ''roa'' = Inr (0.01, 0.02)"
  "RATIOS_THRESHOLDS ''nim'' = Inr (0.02, 0.04)"
  "RATIOS_THRESHOLDS ''problem_loans_ratio'' = Inr (0.05, 0.02)"
  by (simp_all add: RATIOS_THRESHOLDS_def RATIOS_THRESHOLDS_items_def)

subsection \<open>Normalisation\<close>

text \<open>
  The straight line through \<open>(mn, 0)\<close> and \<open>(ideal, 1)\<close> is unique: any affine function
  with these two values is \<open>(v - mn) / (ideal - mn)\<close>.
\<close>

lemma interpolation_unique:
  fixes a b mn ideal v :: real
  assumes "mn < ideal" "a * mn + b = 0" "a * ideal + b = 1"
  shows "a * v + b = (v - mn) / (ideal - mn)"
proof -
  have "a * (ideal - mn) = 1" using assms by (simp add: algebra_simps)
  then have a: "a = 1 / (ideal - mn)" using assms(1) by (simp add: field_simps)
  have "a * v + b = a * (v - mn)" using assms(2) by (simp add: algebra_simps)
  then show ?thesis by (simp add: a)
qed

text \<open>
  Claim C5. For every threshold pair \<open>(mn, ideal)\<close> with \<open>mn < ideal\<close> and every value
  \<open>v\<close> that is a number, \<open>normalize_score\<close> without \<open>reverse\<close> returns 0 when
  \<open>v \<le> mn\<close>, 1 when \<open>v \<ge> ideal\<close>, and \<open>(v - mn) / (ideal - mn)\<close> when \<open>v\<close> is strictly
  between: the value at \<open>v\<close> of the one affine function that is 0 at \<open>mn\<close> and 1 at
  \<open>ideal\<close>. It does not raise.
\<close>

theorem normalize_score_forward:
  assumes "mn < ideal"
  shows "(v \<le> mn \<longrightarrow> normalize_score (Some v) mn ideal False = Inr 0) \<and>
         (v \<ge> ideal \<longrightarrow> normalize_score (Some v) mn ideal False = Inr 1) \<and>
         (mn < v \<and> v < ideal \<longrightarrow>
            normalize_score (Some v) mn ideal False = Inr ((v - mn) / (ideal - mn)) \<and>
            (\<forall>a b. a * mn + b = 0 \<and> a * ideal + b = 1 \<longrightarrow>
               normalize_score (Some v) mn ideal False = Inr (a * v + b)))"
  using assms interpolation_unique[of mn ideal _ _ v]
  by (auto simp: normalize_score_def py_truediv_def)

theorem normalize_score_forward_witness:
  "(0.08::real) < 0.12 \<and> normalize_score (Some 0.05) 0.08 0.12 False = Inr 0
   \<and> normalize_score (Some 0.2) 0.08 0.12 False = Inr 1
   \<and> normalize_score (Some 0.10) 0.08 0.12 False = Inr 0.5"
  using normalize_score_forward[of "0.08" "0.12" "0.05"]
    normalize_score_forward[of "0.08" "0.12" "0.2"]
    normalize_score_forward[of "0.08" "0.12" "0.10"]
  by simp

lemma normalize_score_range:
  "\<exists>s. normalize_score val mn mx r = Inr s \<and> 0 \<le> s \<and> s \<le> 1"
  by (cases val) (auto simp: normalize_score_def py_truediv_def)

text \<open>
  Claim C10. \<open>calculate_bsi\<close> hands the shipped pair \<open>(0.05, 0.02)\<close> to
  \<open>normalize_score\<close> as \<open>(min_thr, max_thr)\<close> with \<open>reverse=True\<close>. Every value is at
  most 0.05 or at least 0.02, so the interpolation branch is never taken: the score of
  the problem-loans ratio is 1 for a value up to 0.05 and 0 above, and nothing in
  between.
\<close>

theorem problem_loans_score_two_valued:
  "RATIOS_THRESHOLDS ''problem_loans_ratio'' = Inr (0.05, 0.02) \<and>
   (v \<le> 0.05 \<or> 0.02 \<le> (v::real)) \<and>
   normalize_score (Some v) 0.05 0.02 True = Inr (if v \<le> 0.05 then 1 else 0) \<and>
   normalized_score_of ''problem_loans_ratio'' v = Inr (if v \<le> 0.05 then 1 else 0)"
  by (auto simp: normalize_score_def normalized_score_of_def thresholds_lookup)

text \<open>
  Claim C2. The claim asks for the score 1 up to the ideal maximum 0.02 and for the
  score 0 from the concerning maximum 0.05 on. At the value 0.05 itself the code returns
  1: the pair reaches \<open>normalize_score\<close> with its components the other way round, so
  the test \<open>value <= min_thr\<close> compares with 0.05.
\<close>

theorem problem_loans_score_at_concerning_max:
  "normalized_score_of ''problem_loans_ratio'' 0.05 = Inr 1 \<and>
   normalize_score (Some 0.05) 0.05 0.02 True = Inr 1"
  by (simp add: normalize_score_def normalized_score_of_def thresholds_lookup)

subsection \<open>The seven ratios\<close>

text \<open>
  Claim C3. When \<open>total_assets\<close> is 0, \<open>calculate_capital_adequacy\<close> returns the pair
  \<open>(0.0, "Cannot calculate: Total assets is zero")\<close> whatever the other fields are; and
  each of the seven ratio methods, when its denominator is zero, returns (and does not
  raise) the value 0 with an interpretation that is one literal starting with
  "Cannot calculate".
\<close>

theorem zero_denominator_results:
  "(total_assets self = 0 \<longrightarrow>
      calculate_capital_adequacy self = Inr (0, [Lit ''Cannot calculate: Total assets is zero''])) \<and>
   (demand_deposits self = 0 \<longrightarrow>
      calculate_instant_liquidity self = Inr (0, [Lit ''Cannot calculate: Demand deposits is zero''])) \<and>
   (short_term_liabilities self = 0 \<longrightarrow>
      calculate_current_liquidity self =
        Inr (0, [Lit ''Cannot calculate: Short-term liabilities is zero''])) \<and>
   (equity self = 0 \<longrightarrow>
      calculate_roe self = Inr (0, [Lit ''Cannot calculate: Equity is zero''])) \<and>
   (total_assets self = 0 \<longrightarrow>
      calculate_roa self = Inr (0, [Lit ''Cannot calculate: Total assets is zero''])) \<and>
   (average_assets self = 0 \<longrightarrow>
      calculate_nim self = Inr (0, [Lit ''Cannot calculate: Average assets is zero''])) \<and>
   (loans_to_customers self = 0 \<longrightarrow>
      calculate_problem_loans_ratio self =
        Inr (0, [Lit ''Cannot calculate: Loans to customers is zero'']))"
  by (simp add: calculate_capital_adequacy_def calculate_instant_liquidity_def
      calculate_current_liquidity_def calculate_roe_def calculate_roa_def calculate_nim_def
      calculate_problem_loans_ratio_def)

theorem zero_denominator_results_witness:
  "total_assets (init_calculator [''equity'' \<mapsto> 0, ''total_assets'' \<mapsto> 0]) = 0 \<and>
   calculate_capital_adequacy (init_calculator [''equity'' \<mapsto> 0, ''total_assets'' \<mapsto> 0]) =
     Inr (0, [Lit ''Cannot calculate: Total assets is zero'']) \<and>
   calculate_roe (init_calculator [''equity'' \<mapsto> 0, ''total_assets'' \<mapsto> 0]) =
     Inr (0, [Lit ''Cannot calculate: Equity is zero''])"
  using zero_denominator_results[of "init_calculator [''equity'' \<mapsto> 0, ''total_assets'' \<mapsto> 0]"]
  by (simp add: init_calculator_def get_default_def)

lemma problem_loans_ratio_eq:
  "calculate_problem_loans_ratio self =
     Inr (if loans_to_customers self = 0
          then (0, [Lit ''Cannot calculate: Loans to customers is zero''])
          else (0.03, interpret_problem_loans 0.03 0.05 0.02))"
  by (simp add: calculate_problem_loans_ratio_def py_truediv_def thresholds_lookup Let_def)

text \<open>None of the seven methods raises, whatever the calculator holds.\<close>

lemma ratio_never_raises:
  "\<exists>v i. calculate_capital_adequacy self = Inr (v, i)"
  "\<exists>v i. calculate_instant_liquidity self = Inr (v, i)"
  "\<exists>v i. calculate_current_liquidity self = Inr (v, i)"
  "\<exists>v i. calculate_roe self = Inr (v, i)"
  "\<exists>v i. calculate_roa self = Inr (v, i)"
  "\<exists>v i. calculate_nim self = Inr (v, i)"
  "\<exists>v i. calculate_problem_loans_ratio self = Inr (v, i)"
  unfolding calculate_capital_adequacy_def calculate_instant_liquidity_def
      calculate_current_liquidity_def calculate_roe_def calculate_roa_def calculate_nim_def
      problem_loans_ratio_eq py_truediv_def thresholds_lookup Let_def
  by simp_all

text \<open>
  Claim C8. When \<open>loans_to_customers\<close> is not 0, \<open>calculate_problem_loans_ratio\<close>
  returns the value \<open>(0.03 * loans) / loans\<close>, which is 0.03, and chooses the
  interpretation by the inverted comparison: Healthy for a value up to the ideal maximum
  0.02, Concerning above it and up to the concerning maximum 0.05, Critical above that.
\<close>

theorem problem_loans_ratio_value_and_tier:
  assumes "loans_to_customers self \<noteq> 0"
  shows "calculate_problem_loans_ratio self =
           Inr ((0.03 * loans_to_customers self) / loans_to_customers self,
                interpret_problem_loans
                  ((0.03 * loans_to_customers self) / loans_to_customers self) 0.05 0.02) \<and>
         (0.03 * loans_to_customers self) / loans_to_customers self = 0.03 \<and>
         tier_label (interpret_problem_loans v 0.05 0.02) =
           (if v \<le> 0.02 then ''Healthy'' else if v \<le> 0.05 then ''Concerning'' else ''Critical'')"
  using assms by (simp add: problem_loans_ratio_eq interpret_problem_loans_def tier_label_def)

theorem problem_loans_ratio_value_and_tier_witness:
  "loans_to_customers (init_calculator [''loans_to_customers'' \<mapsto> 500]) \<noteq> 0 \<and>
   calculate_problem_loans_ratio (init_calculator [''loans_to_customers'' \<mapsto> 500]) =
     Inr (0.03, [Lit ''Concerning: '', Pct2 0.03, Lit '' (approaching threshold of '', Pct2 0.05,
        Lit '')''])"
  using problem_loans_ratio_value_and_tier[of "init_calculator [''loans_to_customers'' \<mapsto> 500]" 0]
  by (simp add: init_calculator_def get_default_def interpret_problem_loans_def)

text \<open>
  In \<open>calculate_bsi\<close> the problem-loans ratio is therefore 0 or 0.03, and its score is
  1 in both cases.
\<close>

lemma bsi_problem_loans_score_is_one:
  assumes "calculate_problem_loans_ratio self = Inr (v, i)"
  shows "normalized_score_of ''problem_loans_ratio'' v = Inr 1"
  using assms
  by (auto simp: problem_loans_ratio_eq normalized_score_of_def normalize_score_def
      thresholds_lookup split: if_splits)

subsection \<open>The stability index\<close>

lemma all_ratios_shape:
  "\<exists>v1 i1 v2 i2 v3 i3 v4 i4 v5 i5 v6 i6 v7 i7. calculate_all_ratios self =
     Inr [(''capital_adequacy'', (v1, i1)), (''instant_liquidity'', (v2, i2)),
          (''current_liquidity'', (v3, i3)), (''roe'', (v4, i4)), (''roa'', (v5, i5)),
          (''nim'', (v6, i6)), (''problem_loans_ratio'', (v7, i7))]"
proof -
  obtain v1 i1 where 1: "calculate_capital_adequacy self = Inr (v1, i1)"
    using ratio_never_raises(1) by blast
  obtain v2 i2 where 2: "calculate_instant_liquidity self = Inr (v2, i2)"
    using ratio_never_raises(2) by blast
  obtain v3 i3 where 3: "calculate_current_liquidity self = Inr (v3, i3)"
    using ratio_never_raises(3) by blast
  obtain v4 i4 where 4: "calculate_roe self = Inr (v4, i4)"
    using ratio_never_raises(4) by blast
  obtain v5 i5 where 5: "calculate_roa self = Inr (v5, i5)"
    using ratio_never_raises(5) by blast
  obtain v6 i6 where 6: "calculate_nim self = Inr (v6, i6)"
    using ratio_never_raises(6) by blast
  obtain v7 i7 where 7: "calculate_problem_loans_ratio self = Inr (v7, i7)"
    using ratio_never_raises(7) by blast
  show ?thesis by (simp add: calculate_all_ratios_def 1 2 3 4 5 6 7)
qed

lemma thresholds_lookup_any:
  assumes "name \<in> fst ` set RATIOS_THRESHOLDS_items"
  shows "\<exists>mn mx. RATIOS_THRESHOLDS name = Inr (mn, mx)"
proof -
  from assms obtain p where "map_of RATIOS_THRESHOLDS_items name = Some p"
    by (metis (no_types) domD dom_map_of_conv_image_fst)
  then show ?thesis by (cases p) (simp add: RATIOS_THRESHOLDS_def)
qed

lemma normalized_score_of_range:
  assumes "name \<in> fst ` set RATIOS_THRESHOLDS_items"
  shows "\<exists>s. normalized_score_of name v = Inr s \<and> 0 \<le> s \<and> s \<le> 1"
proof -
  obtain mn mx where p: "RATIOS_THRESHOLDS name = Inr (mn, mx)"
    using thresholds_lookup_any[OF assms] by blast
  show ?thesis
    using normalize_score_range[of "Some v" mn mx True] normalize_score_range[of "Some v" mn mx False]
    using p by (auto simp: normalized_score_of_def)
qed

lemma normalize_ratios_ok:
  assumes "fst ` set rs \<subseteq> fst ` set RATIOS_THRESHOLDS_items" "scores_ok ns0"
  shows "\<exists>ns. normalize_ratios rs ns0 = Inr ns \<and> scores_ok ns \<and> dom ns = dom ns0 \<union> fst ` set rs"
  using assms
proof (induction rs ns0 rule: normalize_ratios.induct)
  case (1 ns0)
  then show ?case by simp
next
  case (2 ratio_name ratio_value uu rest ns0)
  from "2.prems"(1) have "ratio_name \<in> fst ` set RATIOS_THRESHOLDS_items" by simp
  from normalized_score_of_range[OF this, of ratio_value] obtain s where
    s: "normalized_score_of ratio_name ratio_value = Inr s" "0 \<le> s" "s \<le> 1" by blast
  have ok: "scores_ok (ns0(ratio_name \<mapsto> s))"
    using "2.prems"(2) s by (simp add: scores_ok_def)
  have sub: "fst ` set rest \<subseteq> fst ` set RATIOS_THRESHOLDS_items" using "2.prems"(1) by simp
  from "2.IH"[OF sub ok] obtain ns where
    ns: "normalize_ratios rest (ns0(ratio_name \<mapsto> s)) = Inr ns" "scores_ok ns"
      "dom ns = dom (ns0(ratio_name \<mapsto> s)) \<union> fst ` set rest" by blast
  show ?case using ns by (auto simp: s)
qed

lemma weighted_sum_bound:
  assumes "\<forall>(n, w) \<in> set ws. 0 \<le> w \<and> (\<exists>s. ns n = Some s \<and> 0 \<le> s \<and> s \<le> 1)"
  shows "\<exists>r. weighted_sum ws ns acc = Inr r \<and> acc \<le> r \<and> r \<le> acc + sum_list (map snd ws)"
  using assms
proof (induction ws arbitrary: acc)
  case Nil
  then show ?case by simp
next
  case (Cons a ws)
  obtain n w where a: "a = (n, w)" by (cases a)
  from Cons.prems a obtain s where s: "ns n = Some s" "0 \<le> s" "s \<le> 1" and w: "0 \<le> w"
    by auto
  from Cons.prems have "\<forall>(n, w) \<in> set ws. 0 \<le> w \<and> (\<exists>s. ns n = Some s \<and> 0 \<le> s \<and> s \<le> 1)"
    by simp
  from Cons.IH[OF this, of "acc + s * w"] obtain r where
    r: "weighted_sum ws ns (acc + s * w) = Inr r" "acc + s * w \<le> r"
       "r \<le> acc + s * w + sum_list (map snd ws)" by blast
  have "0 \<le> s * w" using s w by simp
  moreover have "s * w \<le> w" using s w by (simp add: mult_left_le_one_le)
  ultimately show ?case using r by (simp add: a s)
qed

lemma bsi_score_range:
  "\<exists>bsi. calculate_bsi self = Inr (bsi, interpret_bsi bsi) \<and> 0 \<le> bsi \<and> bsi \<le> 1"
proof -
  obtain v1 i1 v2 i2 v3 i3 v4 i4 v5 i5 v6 i6 v7 i7 where
    all: "calculate_all_ratios self =
     Inr [(''capital_adequacy'', (v1, i1)), (''instant_liquidity'', (v2, i2)),
          (''current_liquidity'', (v3, i3)), (''roe'', (v4, i4)), (''roa'', (v5, i5)),
          (''nim'', (v6, i6)), (''problem_loans_ratio'', (v7, i7))]" (is "_ = Inr ?rs")
    using all_ratios_shape[of self] by blast
  have "fst ` set ?rs \<subseteq> fst ` set RATIOS_THRESHOLDS_items"
    by (simp add: RATIOS_THRESHOLDS_items_def)
  moreover have "scores_ok Map.empty" by (simp add: scores_ok_def)
  ultimately obtain ns where
    ns: "normalize_ratios ?rs Map.empty = Inr ns" "scores_ok ns"
      "dom ns = dom (Map.empty :: string \<rightharpoonup> real) \<union> fst ` set ?rs"
    using normalize_ratios_ok[of ?rs Map.empty] by blast
  have "\<forall>(n, w) \<in> set weights. 0 \<le> w \<and> (\<exists>s. ns n = Some s \<and> 0 \<le> s \<and> s \<le> 1)"
  proof -
    have "\<forall>(n, w) \<in> set weights. 0 \<le> w \<and> n \<in> dom ns"
      unfolding ns(3) by (simp add: weights_def)
    then show ?thesis using ns(2) by (fastforce simp: scores_ok_def)
  qed
  from weighted_sum_bound[OF this, of 0] obtain r where
    r: "weighted_sum weights ns 0 = Inr r" "0 \<le> r" "r \<le> 0 + sum_list (map snd weights)" by blast
  have "sum_list (map snd weights) = 1" by (simp add: weights_def)
  with r have "r \<le> 1" by simp
  moreover have "calculate_bsi self = Inr (r, interpret_bsi r)"
    unfolding calculate_bsi_def all bind_err_Inr ns(1) r(1) by (rule refl)
  ultimately show ?thesis using r(2) by blast
qed

text \<open>
  Claim C9. For every financial record \<open>calculate_bsi\<close> returns (it does not raise) a
  score between 0 and 1, and the band of its interpretation is chosen with inclusive
  lower bounds: Excellent from 0.8, Good from 0.6, Adequate from 0.4, Concerning from
  0.2, Critical below 0.2.
\<close>

theorem bsi_range_and_bands:
  "\<exists>bsi. calculate_bsi (init_calculator d) = Inr (bsi, interpret_bsi bsi) \<and> 0 \<le> bsi \<and> bsi \<le> 1 \<and>
     tier_label (interpret_bsi bsi) =
       (if bsi \<ge> 0.8 then ''Excellent stability''
        else if bsi \<ge> 0.6 then ''Good stability''
        else if bsi \<ge> 0.4 then ''Adequate stability''
        else if bsi \<ge> 0.2 then ''Concerning stability''
        else ''Critical stability'')"
proof -
  have "tier_label (interpret_bsi b) =
       (if b \<ge> 0.8 then ''Excellent stability''
        else if b \<ge> 0.6 then ''Good stability''
        else if b \<ge> 0.4 then ''Adequate stability''
        else if b \<ge> 0.2 then ''Concerning stability''
        else ''Critical stability'')" for b
    by (simp add: interpret_bsi_def tier_label_def)
  then show ?thesis using bsi_score_range[of "init_calculator d"] by auto
qed

section \<open>Properties of the number parser\<close>

subsection \<open>Splitting at the last comma\<close>

lemma takeWhile_upto_comma:
  "44 \<notin> set xs \<Longrightarrow> takeWhile (\<lambda>c::int. c \<noteq> 44) (xs @ 44 # ys) = xs"
  by (induction xs) auto

lemma dropWhile_upto_comma:
  "44 \<notin> set xs \<Longrightarrow> dropWhile (\<lambda>c::int. c \<noteq> 44) (xs @ 44 # ys) = 44 # ys"
  by (induction xs) auto

text \<open>\<open>rsplit_comma\<close> cuts a text that holds a comma at its last comma, and a cut at
  the last comma is the one it finds.\<close>

lemma rsplit_comma_split:
  assumes "44 \<in> set t"
  shows "t = fst (rsplit_comma t) @ [44] @ snd (rsplit_comma t) \<and> 44 \<notin> set (snd (rsplit_comma t))"
proof -
  let ?P = "\<lambda>c::int. c \<noteq> 44"
  have ne: "dropWhile ?P (rev t) \<noteq> []" using assms by (simp add: dropWhile_eq_Nil_conv)
  moreover have "hd (dropWhile ?P (rev t)) = 44"
    using hd_dropWhile[OF ne] by simp
  ultimately have dw: "dropWhile ?P (rev t) = 44 # tl (dropWhile ?P (rev t))"
    by (metis list.collapse)
  have "rev t = takeWhile ?P (rev t) @ dropWhile ?P (rev t)" by simp
  then have "rev t = takeWhile ?P (rev t) @ 44 # tl (dropWhile ?P (rev t))"
    using dw by simp
  then have "rev (rev t) = rev (takeWhile ?P (rev t) @ 44 # tl (dropWhile ?P (rev t)))"
    by simp
  then have "t = rev (tl (dropWhile ?P (rev t))) @ [44] @ rev (takeWhile ?P (rev t))"
    by simp
  moreover have "44 \<notin> set (rev (takeWhile ?P (rev t)))"
    using set_takeWhileD by fastforce
  ultimately show ?thesis by (simp add: rsplit_comma_def)
qed

lemma rsplit_comma_unique:
  assumes "t = b @ [44] @ a" "44 \<notin> set a"
  shows "rsplit_comma t = (b, a)"
proof -
  have r: "rev t = rev a @ 44 # rev b" using assms(1) by simp
  have "44 \<notin> set (rev a)" using assms(2) by simp
  then show ?thesis
    unfolding rsplit_comma_def r by (simp add: takeWhile_upto_comma dropWhile_upto_comma)
qed

subsection \<open>White space and digits\<close>

lemma digit_not_space: "is_digit c \<Longrightarrow> \<not> is_space c"
  by (auto simp: is_digit_def is_space_def)

lemma strip_digits: "isdigit s \<Longrightarrow> strip s = s"
proof -
  assume a: "isdigit s"
  then have ne: "s \<noteq> []" and all: "list_all is_digit s" by (simp_all add: isdigit_def)
  have "\<not> is_space (hd s)" using ne all digit_not_space by (cases s) auto
  then have 1: "dropWhile is_space s = s" using ne by (cases s) auto
  have "\<not> is_space (hd (rev s))" using ne all digit_not_space
    by (simp add: hd_rev list_all_iff)
  then have 2: "dropWhile is_space (rev s) = rev s" using ne by (cases "rev s") auto
  show ?thesis by (simp add: strip_def 1 2)
qed

lemma set_strip: "set (strip s) \<subseteq> set s"
proof -
  have "set (dropWhile is_space (rev (dropWhile is_space s))) \<subseteq> set (rev (dropWhile is_space s))"
    by (meson set_dropWhileD subsetI)
  moreover have "set (dropWhile is_space s) \<subseteq> set s" by (meson set_dropWhileD subsetI)
  ultimately show ?thesis by (auto simp: strip_def)
qed

subsection \<open>The comma rule\<close>

lemma comma_is_decimal_iff:
  "comma_is_decimal t \<longleftrightarrow>
     (\<exists>before after. t = before @ [44] @ after \<and> 44 \<notin> set after \<and>
        isdigit (strip after) \<and> length (strip after) \<le> 3)"
proof
  assume c: "comma_is_decimal t"
  then have "44 \<in> set t" by (simp add: comma_is_decimal_def)
  from rsplit_comma_split[OF this] c show "\<exists>before after. t = before @ [44] @ after \<and>
     44 \<notin> set after \<and> isdigit (strip after) \<and> length (strip after) \<le> 3"
    unfolding comma_is_decimal_def Let_def by blast
next
  assume "\<exists>before after. t = before @ [44] @ after \<and> 44 \<notin> set after \<and>
        isdigit (strip after) \<and> length (strip after) \<le> 3"
  then obtain b a where ba: "t = b @ [44] @ a" "44 \<notin> set a" "isdigit (strip a)"
    "length (strip a) \<le> 3" by blast
  from rsplit_comma_unique[OF ba(1,2)] ba show "comma_is_decimal t"
    by (simp add: comma_is_decimal_def)
qed

text \<open>
  The rule of the source and the rule as the specification words it: the second implies
  the first, and the first is the second once the white space around the remainder is
  gone.
\<close>

lemma spec_rule_implies: "spec_comma_is_decimal t \<Longrightarrow> comma_is_decimal t"
  by (simp add: spec_comma_is_decimal_def comma_is_decimal_def strip_digits Let_def)

lemma spec_rule_after_strip:
  assumes "44 \<in> set t"
  shows "comma_is_decimal t \<longleftrightarrow>
    spec_comma_is_decimal (fst (rsplit_comma t) @ [44] @ strip (snd (rsplit_comma t)))"
proof -
  from rsplit_comma_split[OF assms] have "44 \<notin> set (snd (rsplit_comma t))" by simp
  then have "44 \<notin> set (strip (snd (rsplit_comma t)))" using set_strip by blast
  from rsplit_comma_unique[OF refl this, of "fst (rsplit_comma t)"]
  show ?thesis using assms by (simp add: comma_is_decimal_def spec_comma_is_decimal_def Let_def)
qed

text \<open>
  Claim C6, as it is worded, fails on a text with white space after its last comma.
  In \<open>1, 5\<close> the text after the comma is a space and a digit, not a run of digits, and
  the source still reads the comma as a decimal separator, because it strips the
  remainder before it tests it: the result is 1.5.
\<close>

theorem comma_rule_with_space_after_comma:
  "comma_is_decimal (clean_text (asc ''1, 5'')) \<and>
   \<not> spec_comma_is_decimal (clean_text (asc ''1, 5'')) \<and>
   parse_russian_number (Str (asc ''1, 5'')) = Some 1.5"
  by code_simp

text \<open>
  Claim C6, amended. \<open>parse_russian_number\<close> reads a comma of the cleaned text as the
  decimal separator exactly when the text after the last comma, with the white space
  around it stripped, is a run of one to three digits; then the text before the comma
  loses its spaces and the comma becomes a point, and otherwise all commas and spaces
  are removed. So \<open>1 234,56\<close> gives 1234.56 and \<open>1234,5678\<close> gives 12345678, not
  1234.5678. The dash \<open>-\<close> gives \<open>None\<close>. A text whose number has a magnitude above
  \<open>1e16\<close>, or a magnitude below \<open>1e-6\<close> without being zero, gives \<open>None\<close>.
\<close>

theorem parse_russian_number_rules:
  "(comma_is_decimal t \<longleftrightarrow>
     (\<exists>before after. t = before @ [44] @ after \<and> 44 \<notin> set after \<and>
        isdigit (strip after) \<and> length (strip after) \<le> 3)) \<and>
   (44 \<in> set t \<longrightarrow>
      russian_format t =
        (if comma_is_decimal t
         then remove_char 160 (remove_char 32 (fst (rsplit_comma t))) @ [46] @
              strip (snd (rsplit_comma t))
         else remove_char 160 (remove_char 32 (remove_char 44 t)))) \<and>
   number_text s = russian_format (clean_text s) \<and>
   parse_russian_number (Str (asc ''1 234,56'')) = Some 1234.56 \<and>
   parse_russian_number (Str (asc ''1234,5678'')) = Some 12345678 \<and>
   parse_russian_number (Str (asc ''1234,5678'')) \<noteq> Some 1234.5678 \<and>
   parse_russian_number (Str (asc ''-'')) = None \<and>
   (py_float (number_text s) = Some x \<and> (\<bar>x\<bar> > 10 ^ 16 \<or> (\<bar>x\<bar> < 1 / 10 ^ 6 \<and> x \<noteq> 0)) \<longrightarrow>
      parse_russian_number (Str s) = None) \<and>
   (parse_russian_number (Str s) = Some x \<longrightarrow>
      py_float (number_text s) = Some x \<and> \<bar>x\<bar> \<le> 10 ^ 16 \<and> (x = 0 \<or> 1 / 10 ^ 6 \<le> \<bar>x\<bar>))"
proof -
  have 1: "parse_russian_number (Str (asc ''1 234,56'')) = Some 1234.56" by code_simp
  have 2: "parse_russian_number (Str (asc ''1234,5678'')) = Some 12345678" by code_simp
  have 3: "parse_russian_number (Str (asc ''-'')) = None" by code_simp
  have 4: "44 \<in> set t \<longrightarrow>
      russian_format t =
        (if comma_is_decimal t
         then remove_char 160 (remove_char 32 (fst (rsplit_comma t))) @ [46] @
              strip (snd (rsplit_comma t))
         else remove_char 160 (remove_char 32 (remove_char 44 t)))"
    by (simp add: russian_format_def comma_is_decimal_def Let_def)
  have 5: "py_float (number_text s) = Some x \<and> (\<bar>x\<bar> > 10 ^ 16 \<or> (\<bar>x\<bar> < 1 / 10 ^ 6 \<and> x \<noteq> 0)) \<longrightarrow>
      parse_russian_number (Str s) = None"
    by (simp add: parse_russian_number_def implausible_def)
  have 6: "parse_russian_number (Str s) = Some x \<longrightarrow>
      py_float (number_text s) = Some x \<and> \<bar>x\<bar> \<le> 10 ^ 16 \<and> (x = 0 \<or> 1 / 10 ^ 6 \<le> \<bar>x\<bar>)"
    by (auto simp: parse_russian_number_def implausible_def split: if_splits option.splits)
  show ?thesis
    using comma_is_decimal_iff[of t] 1 2 3 4 5 6 by (simp add: number_text_def)
qed

theorem parse_russian_number_rules_witness:
  "comma_is_decimal (asc ''1 234,56'') \<and> 44 \<in> set (asc ''1 234,56'') \<and>
   russian_format (asc ''1 234,56'') = asc ''1234.56'' \<and>
   py_float (number_text (asc ''1e17'')) = Some (10 ^ 17) \<and> \<bar>10 ^ 17 :: real\<bar> > 10 ^ 16 \<and>
   parse_russian_number (Str (asc ''1e17'')) = None \<and>
   parse_russian_number (Str (asc ''98,1'')) = Some 98.1 \<and>
   \<bar>98.1 :: real\<bar> \<le> 10 ^ 16"
proof -
  have a: "comma_is_decimal (asc ''1 234,56'')" by code_simp
  have b: "44 \<in> set (asc ''1 234,56'')" by code_simp
  have c: "remove_char 160 (remove_char 32 (fst (rsplit_comma (asc ''1 234,56'')))) @ [46] @
              strip (snd (rsplit_comma (asc ''1 234,56''))) = asc ''1234.56''" by code_simp
  have d: "py_float (number_text (asc ''1e17'')) = Some (10 ^ 17)" by code_simp
  have e: "parse_russian_number (Str (asc ''98,1'')) = Some 98.1" by code_simp
  have f: "\<bar>10 ^ 17 :: real\<bar> > 10 ^ 16" by simp
  note r1 = parse_russian_number_rules[of "asc ''1 234,56''" "asc ''1e17''" "10 ^ 17"]
  note r2 = parse_russian_number_rules[of "asc ''1 234,56''" "asc ''98,1''" "98.1"]
  from r1 a b c have g: "russian_format (asc ''1 234,56'') = asc ''1234.56''" by simp
  from r1 d f have h: "parse_russian_number (Str (asc ''1e17'')) = None" by blast
  from r2 e have i: "\<bar>98.1 :: real\<bar> \<le> 10 ^ 16" by blast
  show ?thesis using a b d e f g h i by blast
qed

section \<open>Properties of the aggregator\<close>

subsection \<open>The keys of the record\<close>

text \<open>The aggregator only ever adds or overwrites entries, so a key of the record stays a
  key through every value, row and table.\<close>

lemma extract_values_keeps:
  "k \<in> dom fd \<Longrightarrow> k \<in> dom (extract_values p row cu vals fd)"
proof (induction vals arbitrary: fd)
  case Nil
  then show ?case by simp
next
  case (Cons a vals)
  obtain col cellv where a: "a = (col, cellv)" by (cases a)
  have "extract_values p row cu (a # vals) fd = extract_values p row cu vals fd \<or>
        (\<exists>v. extract_values p row cu (a # vals) fd = extract_values p row cu vals (fd(p \<mapsto> v)))"
    by (auto simp: a Let_def split: prod.splits option.splits)
  then show ?case
  proof
    assume "extract_values p row cu (a # vals) fd = extract_values p row cu vals fd"
    then show ?thesis using Cons.IH[OF Cons.prems] by simp
  next
    assume "\<exists>v. extract_values p row cu (a # vals) fd = extract_values p row cu vals (fd(p \<mapsto> v))"
    then obtain v where v: "extract_values p row cu (a # vals) fd =
        extract_values p row cu vals (fd(p \<mapsto> v))" by blast
    have "k \<in> dom (fd(p \<mapsto> v))" using Cons.prems by auto
    then have "k \<in> dom (extract_values p row cu vals (fd(p \<mapsto> v)))" by (rule Cons.IH)
    then show ?thesis by (simp only: v)
  qed
qed

lemma process_row_keeps:
  "k \<in> dom (snd st) \<Longrightarrow> k \<in> dom (snd (process_row row st))"
  using extract_values_keeps[of k "snd st"]
  by (simp add: process_row_def Let_def split: option.splits)

lemma fold_process_row_keeps:
  "k \<in> dom (snd st) \<Longrightarrow> k \<in> dom (snd (fold process_row df st))"
proof (induction df arbitrary: st)
  case Nil
  then show ?case by simp
next
  case (Cons row df)
  from process_row_keeps[OF Cons.prems, of row]
  show ?case using Cons.IH[of "process_row row st"] by simp
qed

lemma process_table_keeps: "k \<in> dom fd \<Longrightarrow> k \<in> dom (process_table df fd)"
  using fold_process_row_keeps[of k "(Map.empty, fd)" df] by (simp add: process_table_def)

lemma fold_process_table_keeps:
  "k \<in> dom fd \<Longrightarrow> k \<in> dom (fold process_table tables fd)"
proof (induction tables arbitrary: fd)
  case Nil
  then show ?case by simp
next
  case (Cons df tables)
  from process_table_keeps[OF Cons.prems, of df]
  show ?case using Cons.IH[of "process_table df fd"] by simp
qed

lemma financial_data_init_keys:
  "financial_data_init k = (if k \<in> set canonical_keys then Some 0 else None)"
  by (simp add: financial_data_init_def map_of_map_restrict restrict_map_def)

text \<open>
  Claim C4. For the empty list of tables \<open>aggregate_financial_data\<close> returns the
  initial record, in which every canonical key is present with the value 0; and for
  every list of tables the record it returns has every canonical key. The aggregator has
  no operation that raises on tables of missing, string and number cells (the one
  exception it can meet, the \<open>ValueError\<close> of \<open>float\<close>, it catches), so the model is a
  total function.
\<close>

theorem aggregate_has_every_key:
  "aggregate_financial_data [] = financial_data_init \<and>
   (\<forall>k \<in> set canonical_keys.
      aggregate_financial_data [] k = Some 0 \<and> aggregate_financial_data tables k \<noteq> None)"
proof -
  have "k \<in> dom (aggregate_financial_data tables)" if "k \<in> set canonical_keys" for k
  proof -
    have "k \<in> dom financial_data_init" using that by (simp add: financial_data_init_keys dom_def)
    then show ?thesis
      unfolding aggregate_financial_data_def by (rule fold_process_table_keeps)
  qed
  then show ?thesis
    by (auto simp: aggregate_financial_data_def financial_data_init_keys)
qed

theorem aggregate_has_every_key_witness:
  "''roe'' \<in> set canonical_keys \<and> aggregate_financial_data [] ''roe'' = Some 0 \<and>
   aggregate_financial_data [[[Str (asc ''ROE (%)''), Str (asc ''12,5'')]]] ''roe'' \<noteq> None"
proof -
  have a: "''roe'' \<in> set canonical_keys" by code_simp
  from aggregate_has_every_key[of "[[[Str (asc ''ROE (%)''), Str (asc ''12,5'')]]]"] a
  show ?thesis by blast
qed

subsection \<open>The unit patterns and the backslash\<close>

text \<open>
  A pattern with a backslash atom matches only text with a backslash in it. Six of the
  nine unit patterns have such an atom, in the form the parser uses and in the upper-case
  form the row scan uses: in a text without a backslash only \<open>mlrd\<close>, \<open>mln\<close> and
  \<open>tys\<close> can be found.
\<close>

lemma lower_cp_backslash: "lower_cp 92 = lower_cp c \<Longrightarrow> c = 92"
  by (auto simp: lower_cp_def split: if_splits)

lemma match_needs_backslash:
  "re_match_at ic p pos s = Some r \<Longrightarrow> Atom (Chr 92) One \<in> set p \<Longrightarrow> 92 \<in> set s"
proof (induction ic p pos s arbitrary: r rule: re_match_at.induct)
  case (5 ic a p pos c cs)
  then show ?case
    by (cases "a = Chr 92") (auto split: if_splits dest: lower_cp_backslash)
next
  case (7 ic a p pos c cs)
  then show ?case by (auto split: if_splits option.splits)
next
  case (9 ic a p pos c cs)
  then show ?case by (auto split: if_splits option.splits)
next
  case (11 ic a p pos c cs)
  then show ?case by (auto split: if_splits)
qed (auto split: if_splits)

lemma search_needs_backslash:
  "re_search_from ic p pos s \<Longrightarrow> Atom (Chr 92) One \<in> set p \<Longrightarrow> 92 \<in> set s"
proof (induction s arbitrary: pos)
  case Nil
  then show ?case using match_needs_backslash[of ic p pos "[]"] by auto
next
  case (Cons c cs)
  then show ?case using match_needs_backslash[of ic p pos "c # cs"] by auto
qed

lemma long_unit_patterns_need_backslash:
  assumes "i \<in> {0, 1, 3, 4, 6, 7}" "92 \<notin> set s"
  shows "\<not> re_search ic (fst (unit_patterns ! i)) s"
    and "\<not> re_search ic (upper_regex (fst (unit_patterns ! i))) s"
proof -
  have "Atom (Chr 92) One \<in> set (fst (unit_patterns ! i))"
    using assms(1) by (auto simp: unit_patterns_def lit_def)
  moreover have "Atom (Chr 92) One \<in> set (upper_regex (fst (unit_patterns ! i)))"
    using assms(1) by (auto simp: unit_patterns_def lit_def upper_regex_def upper_cp_def)
  ultimately show "\<not> re_search ic (fst (unit_patterns ! i)) s"
    and "\<not> re_search ic (upper_regex (fst (unit_patterns ! i))) s"
    using assms(2) search_needs_backslash unfolding re_search_def by blast+
qed

text \<open>A number cell is returned as it is; the magnitude guard is for text only.\<close>

lemma parse_russian_number_of_number: "parse_russian_number (Num x t) = Some x"
  by (simp add: parse_russian_number_def)

subsection \<open>The row \<open>Itogo aktivov | 1 234,5 MLRD RUB\<close>\<close>

text \<open>
  Claim C1. The claim expects \<open>total_assets = 1234.5e9\<close> from a table with the row
  whose cells are \<open>Itogo aktivov\<close> and \<open>1 234,5 MLRD RUB\<close> (in Cyrillic letters). The
  source leaves \<open>total_assets\<close> at 0. The long unit patterns ask for backslashes and
  are not found; the short pattern \<open>mlrd\<close> is found, but removing it leaves
  \<open>1 234,5  RUB\<close>, which \<open>parse_russian_number\<close> rejects; the text as a whole is
  rejected too, so \<open>parse_number_with_unit\<close> returns no number and the cell is skipped.
\<close>

theorem total_assets_row_is_discarded:
  "\<not> re_search True (fst (unit_patterns ! 1))
       (asc ''1 234,5 '' @ [1052, 1051, 1056, 1044, 32, 1056, 1059, 1041]) \<and>
   strip (re_sub_empty True (fst (unit_patterns ! 2))
       (asc ''1 234,5 '' @ [1052, 1051, 1056, 1044, 32, 1056, 1059, 1041])) =
     asc ''1 234,5  '' @ [1056, 1059, 1041] \<and>
   parse_russian_number (Str (asc ''1 234,5  '' @ [1056, 1059, 1041])) = None \<and>
   parse_number_with_unit
       (Str (asc ''1 234,5 '' @ [1052, 1051, 1056, 1044, 32, 1056, 1059, 1041])) = (None, 1) \<and>
   aggregate_financial_data
     [[[Str [1048, 1090, 1086, 1075, 1086, 32, 1072, 1082, 1090, 1080, 1074, 1086, 1074],
        Str (asc ''1 234,5 '' @ [1052, 1051, 1056, 1044, 32, 1056, 1059, 1041])]]]
     ''total_assets'' = Some 0"
  by code_simp

text \<open>With the unit in a cell of its own the same figures give the expected value: the
  unit is then found in the neighbouring cell.\<close>

lemma total_assets_row_with_unit_cell:
  "aggregate_financial_data
     [[[Str [1048, 1090, 1086, 1075, 1086, 32, 1072, 1082, 1090, 1080, 1074, 1086, 1074],
        Str (asc ''1 234,5''),
        Str [1052, 1051, 1056, 1044, 32, 1056, 1059, 1041]]]]
     ''total_assets'' = Some (1234.5 * 10 ^ 9)"
  by code_simp

subsection \<open>Percentages above 100\<close>

lemma resolve_value_percentage:
  "param_name \<in> set percentage_indicators \<Longrightarrow> num > 100 \<Longrightarrow> multiplier = 1 \<Longrightarrow>
     resolve_value param_name num multiplier = None"
  by (simp add: resolve_value_def)

lemma extract_values_all_discarded:
  assumes "param_name \<in> set percentage_indicators"
    and "\<forall>(col_idx, cell_value) \<in> set vals. \<forall>num inline_multiplier.
           parse_number_with_unit cell_value = (Some num, inline_multiplier) \<longrightarrow>
           num > 100 \<and> inline_multiplier * context_multiplier current_units row col_idx = 1"
  shows "extract_values param_name row current_units vals fd = fd"
  using assms(2)
proof (induction vals)
  case Nil
  then show ?case by simp
next
  case (Cons a vals)
  obtain col_idx cell_value where a: "a = (col_idx, cell_value)" by (cases a)
  have rest: "extract_values param_name row current_units vals fd = fd"
    using Cons by simp
  obtain r m where pm: "parse_number_with_unit cell_value = (r, m)"
    by (cases "parse_number_with_unit cell_value")
  show ?case
  proof (cases r)
    case None
    then show ?thesis by (simp add: a pm rest)
  next
    case (Some num)
    with Cons.prems a pm have "num > 100"
      "m * context_multiplier current_units row col_idx = 1" by auto
    then have "resolve_value param_name num (m * context_multiplier current_units row col_idx) = None"
      using assms(1) by (simp add: resolve_value_percentage)
    then show ?thesis by (simp add: a pm Some rest)
  qed
qed

text \<open>The row \<open>ROE (%) | 120\<close>: no unit is found in it, and it leaves every record as
  it was.\<close>

lemma roe_row_units: "scan_units [Str (asc ''ROE (%)''), Str (asc ''120'')] Map.empty = Map.empty"
proof -
  have "scan_cell_units [Str (asc ''ROE (%)''), Str (asc ''120'')] 0 cu = cu" for cu
  proof -
    have "first_unit False (map (\<lambda>(pattern, multiplier). (upper_regex pattern, multiplier))
                unit_patterns) (strip (upper (asc ''ROE (%)''))) = None" by code_simp
    then show ?thesis by (simp add: scan_cell_units_def)
  qed
  moreover have "scan_cell_units [Str (asc ''ROE (%)''), Str (asc ''120'')] 1 cu = cu" for cu
  proof -
    have "first_unit False (map (\<lambda>(pattern, multiplier). (upper_regex pattern, multiplier))
                unit_patterns) (strip (upper (asc ''120''))) = None" by code_simp
    then show ?thesis by (simp add: scan_cell_units_def)
  qed
  moreover have "[0 ..< min 10 (length [Str (asc ''ROE (%)''), Str (asc ''120'')])] = [0, 1]"
    by code_simp
  ultimately show ?thesis by (simp add: scan_units_def)
qed

lemma roe_row_unchanged:
  "process_row [Str (asc ''ROE (%)''), Str (asc ''120'')] (Map.empty, fd0) = (Map.empty, fd0)"
proof -
  let ?row = "[Str (asc ''ROE (%)''), Str (asc ''120'')]"
  have h1: "is_table_header ?row = False" "list_all isna ?row = False" by code_simp+
  have h2: "(length (non_empty_cells ?row) < 2) = False" by code_simp
  have h3: "(fst (collect_indicator (take 3 (non_empty_cells ?row)) 0 []) = []) = False"
    by code_simp
  have h4: "find_indicator financial_patterns
      (lower (join_space (fst (collect_indicator (take 3 (non_empty_cells ?row)) 0 [])))) =
      Some ''roe''" by code_simp
  have h5: "drop (snd (collect_indicator (take 3 (non_empty_cells ?row)) 0 []))
      (non_empty_cells ?row) = [(1, Str (asc ''120''))]" by code_simp
  have h6: "parse_number_with_unit (Str (asc ''120'')) = (Some 120, 1)" by code_simp
  have h7: "context_multiplier Map.empty ?row 1 = 1" by code_simp
  have h8: "resolve_value ''roe'' 120 (1 * 1) = None" by code_simp
  have "extract_values ''roe'' ?row Map.empty [(1, Str (asc ''120''))] fd0 = fd0"
    by (simp only: extract_values.simps h6 h7 h8 prod.case option.case Let_def)
  then show ?thesis
    unfolding process_row_def Let_def
    by (simp only: h1 h2 h3 h4 h5 roe_row_units fst_conv snd_conv if_False simp_thms option.case)
qed

text \<open>
  Claim C7. In a row whose indicator is one of the percentage indicators, a value that
  parses to more than 100 with the effective multiplier 1 is discarded: when every value
  of the row is of this kind (or does not parse), the record is left as it was, so the
  indicator keeps what it had, which is the default 0 in a fresh record. The row
  \<open>ROE (%) | 120\<close> is such a row: it changes nothing, and \<open>roe\<close> stays 0.
\<close>

theorem implausible_percentage_discarded:
  "(param_name \<in> set percentage_indicators \<and>
    (\<forall>(col_idx, cell_value) \<in> set vals. \<forall>num inline_multiplier.
       parse_number_with_unit cell_value = (Some num, inline_multiplier) \<longrightarrow>
       num > 100 \<and> inline_multiplier * context_multiplier current_units row col_idx = 1) \<longrightarrow>
    extract_values param_name row current_units vals fd = fd) \<and>
   process_row [Str (asc ''ROE (%)''), Str (asc ''120'')] (Map.empty, fd) = (Map.empty, fd) \<and>
   aggregate_financial_data [[[Str (asc ''ROE (%)''), Str (asc ''120'')]]] = financial_data_init \<and>
   financial_data_init ''roe'' = Some 0"
proof -
  have 1: "aggregate_financial_data [[[Str (asc ''ROE (%)''), Str (asc ''120'')]]] =
      financial_data_init"
    by (simp add: aggregate_financial_data_def process_table_def df_empty_def df_columns_def
        roe_row_unchanged)
  have 2: "financial_data_init ''roe'' = Some 0" by code_simp
  show ?thesis
    using 1 2 roe_row_unchanged[of fd] extract_values_all_discarded[of param_name vals current_units row fd]
    by blast
qed

theorem implausible_percentage_discarded_witness:
  "''roe'' \<in> set percentage_indicators \<and>
   parse_number_with_unit (Str (asc ''120'')) = (Some 120, 1) \<and> (120::real) > 100 \<and>
   1 * context_multiplier Map.empty [Str (asc ''ROE (%)''), Str (asc ''120'')] 1 = 1 \<and>
   extract_values ''roe'' [Str (asc ''ROE (%)''), Str (asc ''120'')] Map.empty
      [(1, Str (asc ''120''))] [''roe'' \<mapsto> 7] = [''roe'' \<mapsto> 7]"
proof -
  have a: "''roe'' \<in> set percentage_indicators" by code_simp
  have b: "parse_number_with_unit (Str (asc ''120'')) = (Some 120, 1)" by code_simp
  have c: "1 * context_multiplier Map.empty [Str (asc ''ROE (%)''), Str (asc ''120'')] 1 = 1"
    by code_simp
  have d: "\<forall>(col_idx, cell_value) \<in> set [(1::nat, Str (asc ''120''))]. \<forall>num inline_multiplier.
       parse_number_with_unit cell_value = (Some num, inline_multiplier) \<longrightarrow>
       num > 100 \<and> inline_multiplier *
         context_multiplier Map.empty [Str (asc ''ROE (%)''), Str (asc ''120'')] col_idx = 1"
    using b c by simp
  from implausible_percentage_discarded[where param_name = "''roe''"
      and vals = "[(1, Str (asc ''120''))]" and current_units = Map.empty
      and row = "[Str (asc ''ROE (%)''), Str (asc ''120'')]"
      and fd = "[''roe'' \<mapsto> 7]"] a d
  have "extract_values ''roe'' [Str (asc ''ROE (%)''), Str (asc ''120'')] Map.empty
      [(1, Str (asc ''120''))] [''roe'' \<mapsto> 7] = [''roe'' \<mapsto> 7]" by blast
  then show ?thesis using a b c by simp
qed

end
